theory Spec2Isabelle
  imports Main "HOL-Library.Sublist"
begin

section \<open>Text\<close>

text \<open>
  A Python \<open>str\<close> is a sequence of Unicode code points. The reason phrases and page
  titles of \<open>main.py\<close> are Cyrillic, and the HTTP library encodes a reason phrase as
  Latin-1, so the code points matter: a text is a list of code points. A text is
  well-formed: a \<open>str\<close> that holds a lone surrogate, which UTF-8 cannot encode, is not a
  text but a value of its own (\<open>PyIllFormedStr\<close> below).
\<close>

type_synonym pystr = "nat list"

definition ascii :: "string \<Rightarrow> pystr" where
  "ascii s = map of_char s"

section \<open>The workers table\<close>

text \<open>
  \<open>init_db\<close> creates
  \<^verbatim>\<open>workers (id INTEGER PRIMARY KEY AUTOINCREMENT, name TEXT NOT NULL, position TEXT, department TEXT)\<close>.
  The table is a B-tree keyed by the rowid \<open>id\<close>: its rows are kept in the order of a
  full scan, which is the order of \<open>id\<close>. \<open>AUTOINCREMENT\<close> adds the counter of the
  \<open>sqlite_sequence\<close> table, the largest rowid ever assigned; it survives deletions.
  A row is the tuple a cursor returns: \<open>(id, name, position, department)\<close>. The program
  only ever binds \<open>str\<close> values to the three text columns.
\<close>

type_synonym row = "int \<times> pystr \<times> pystr \<times> pystr"

record db =
  rows :: "row list"
  seq :: int

text \<open>The dictionary built at lines 46 and 65 of \<open>main.py\<close>.\<close>

record worker =
  id_field :: int
  name :: pystr
  position :: pystr
  department :: pystr

definition row_to_worker :: "row \<Rightarrow> worker" where
  "row_to_worker r = (case r of (i, n, p, d) \<Rightarrow>
     \<lparr>id_field = i, name = n, position = p, department = d\<rparr>)"

text \<open>The largest 64-bit signed integer, the last rowid SQLite can assign.\<close>

definition max_rowid :: int where
  "max_rowid = 9223372036854775807"

datatype error =
    SQLITE_FULL
  | OverflowError
  | ProgrammingError
  | UnicodeEncodeError
  | UnicodeDecodeError
  | ValueError

text \<open>
  \<open>init_db\<close>: \<open>CREATE TABLE IF NOT EXISTS\<close> leaves an existing table alone and creates an
  empty one otherwise. \<open>None\<close> is the absent database file.
\<close>

definition init_db :: "db option \<Rightarrow> db" where
  "init_db f = (case f of None \<Rightarrow> \<lparr>rows = [], seq = 0\<rparr> | Some d \<Rightarrow> d)"

subsection \<open>Binding a Python value to the \<open>?\<close> of \<open>WHERE id = ?\<close>\<close>

text \<open>
  \<open>get_worker_by_id\<close> passes its argument, whatever it is, to \<open>cursor.execute\<close>. The
  \<open>sqlite3\<close> module binds \<open>None\<close>, an \<open>int\<close>, a \<open>str\<close> and a \<open>bytes\<close>; it raises
  \<open>OverflowError\<close> on an \<open>int\<close> outside 64 bits, \<open>UnicodeEncodeError\<close> on a \<open>str\<close> with a
  lone surrogate and \<open>ProgrammingError\<close> on an object of any other type, a list for
  instance (\<open>PyObject\<close>). A \<open>float\<close> is bound too and is left out of the model: its
  comparison with an id is floating-point arithmetic.
\<close>

datatype pyval =
    PyStr pystr
  | PyInt int
  | PyNone
  | PyBytes "nat list"
  | PyIllFormedStr
  | PyObject

datatype sqlval = SqlInt int | SqlText pystr | SqlNull | SqlBlob "nat list"

definition bind_param :: "pyval \<Rightarrow> error + sqlval" where
  "bind_param v =
     (case v of
        PyStr s \<Rightarrow> Inr (SqlText s)
      | PyInt n \<Rightarrow>
          if - max_rowid - 1 \<le> n \<and> n \<le> max_rowid then Inr (SqlInt n) else Inl OverflowError
      | PyNone \<Rightarrow> Inr SqlNull
      | PyBytes b \<Rightarrow> Inr (SqlBlob b)
      | PyIllFormedStr \<Rightarrow> Inl UnicodeEncodeError
      | PyObject \<Rightarrow> Inl ProgrammingError)"

subsection \<open>Comparing the id column with a bound value\<close>

text \<open>
  The router binds a path segment, a \<open>str\<close>. The column has INTEGER affinity, so SQLite
  applies NUMERIC affinity to a text before comparing. A text that is an integer literal
  within 64 bits becomes that integer. A text that has no digit, or has a character that
  no numeric literal has (anything but digits, sign, point, \<open>e\<close>, \<open>E\<close> and SQLite's white
  space), converts to nothing: it stays TEXT, and TEXT never equals an INTEGER. Any other
  text (a padded or a real literal, whose value is a floating-point number) is left to
  \<open>other\<close>, a parameter of the model, which gives the rowid such a text compares equal
  to, if any. NULL and a BLOB equal no id.
\<close>

definition is_digit :: "nat \<Rightarrow> bool" where
  "is_digit c = (48 \<le> c \<and> c \<le> 57)"

definition digits_value :: "pystr \<Rightarrow> nat" where
  "digits_value cs = foldl (\<lambda>a c. 10 * a + (c - 48)) 0 cs"

definition unsigned_literal :: "pystr \<Rightarrow> nat option" where
  "unsigned_literal cs =
     (if cs \<noteq> [] \<and> list_all is_digit cs then Some (digits_value cs) else None)"

definition int_literal :: "pystr \<Rightarrow> int option" where
  "int_literal s =
     (case s of
        [] \<Rightarrow> None
      | c # cs \<Rightarrow>
          if c = 45 then map_option (\<lambda>n. - int n) (unsigned_literal cs)
          else if c = 43 then map_option int (unsigned_literal cs)
          else map_option int (unsigned_literal s))"

definition numeric_char :: "nat \<Rightarrow> bool" where
  "numeric_char c = (is_digit c \<or> c \<in> set [9, 10, 11, 12, 13, 32, 43, 45, 46, 69, 101])"

definition never_numeric :: "pystr \<Rightarrow> bool" where
  "never_numeric t = (\<not> list_ex is_digit t \<or> list_ex (\<lambda>c. \<not> numeric_char c) t)"

definition numeric_affinity :: "(pystr \<Rightarrow> int option) \<Rightarrow> pystr \<Rightarrow> int option" where
  "numeric_affinity other t =
     (case int_literal t of
        Some n \<Rightarrow> if - max_rowid - 1 \<le> n \<and> n \<le> max_rowid then Some n else other t
      | None \<Rightarrow> if never_numeric t then None else other t)"

definition id_equals :: "(pystr \<Rightarrow> int option) \<Rightarrow> pystr \<Rightarrow> row \<Rightarrow> bool" where
  "id_equals other t r = (numeric_affinity other t = Some (fst r))"

fun id_matches :: "(pystr \<Rightarrow> int option) \<Rightarrow> sqlval \<Rightarrow> row \<Rightarrow> bool" where
  "id_matches other (SqlInt n) r = (fst r = n)"
| "id_matches other (SqlText t) r = id_equals other t r"
| "id_matches other SqlNull r = False"
| "id_matches other (SqlBlob b) r = False"

subsection \<open>The five store functions\<close>

text \<open>\<open>SELECT id, name, position, department FROM workers\<close>, then one dictionary per row.\<close>

definition get_all_workers :: "db \<Rightarrow> worker list" where
  "get_all_workers d = map row_to_worker (rows d)"

text \<open>
  \<open>SELECT ... WHERE id = ?\<close> and \<open>fetchone\<close>: binding the argument may raise; then the
  first row of the scan that matches, as a dictionary, or \<open>None\<close>.
\<close>

definition fetchone :: "(row \<Rightarrow> bool) \<Rightarrow> db \<Rightarrow> worker option" where
  "fetchone P d =
     (case find P (rows d) of
        None \<Rightarrow> None
      | Some r \<Rightarrow> Some (row_to_worker r))"

definition get_worker_by_id :: "(pystr \<Rightarrow> int option) \<Rightarrow> pyval \<Rightarrow> db \<Rightarrow> error + worker option" where
  "get_worker_by_id other worker_id d =
     (case bind_param worker_id of
        Inl err \<Rightarrow> Inl err
      | Inr v \<Rightarrow> Inr (fetchone (id_matches other v) d))"

text \<open>
  \<open>INSERT INTO workers (name, position, department)\<close>: no rowid is given, so
  \<open>AUTOINCREMENT\<close> assigns one more than the largest rowid that ever existed in the
  table, and the insert fails with \<open>SQLITE_FULL\<close> once the largest possible rowid has been
  used. The new key is the largest, so the row goes last in the scan. The function has no
  \<open>return\<close>: its value is Python's \<open>None\<close>, the first component of the result.
\<close>

definition largest_rowid :: "db \<Rightarrow> int" where
  "largest_rowid d = foldr max (map fst (rows d)) (seq d)"

definition add_worker :: "pystr \<Rightarrow> pystr \<Rightarrow> pystr \<Rightarrow> db \<Rightarrow> error + (int option \<times> db)" where
  "add_worker n p dep d =
     (let m = largest_rowid d in
      if max_rowid \<le> m then Inl SQLITE_FULL
      else Inr (None, \<lparr>rows = rows d @ [(m + 1, n, p, dep)], seq = m + 1\<rparr>))"

text \<open>
  \<open>UPDATE workers SET name=?, position=?, department=? WHERE id=?\<close>, and below it
  \<open>DELETE\<close>. The router is the only caller of both and passes the path segment it has
  just looked up: the id is a text.
\<close>

definition update_worker :: "(pystr \<Rightarrow> int option) \<Rightarrow> pystr \<Rightarrow> pystr \<Rightarrow> pystr \<Rightarrow> pystr \<Rightarrow> db \<Rightarrow> db" where
  "update_worker other worker_id n p dep d =
     d\<lparr>rows := map (\<lambda>r. if id_equals other worker_id r then (fst r, n, p, dep) else r) (rows d)\<rparr>"

text \<open>\<open>DELETE FROM workers WHERE id=?\<close>.\<close>

definition delete_worker :: "(pystr \<Rightarrow> int option) \<Rightarrow> pystr \<Rightarrow> db \<Rightarrow> db" where
  "delete_worker other worker_id d =
     d\<lparr>rows := filter (\<lambda>r. \<not> id_equals other worker_id r) (rows d)\<rparr>"

text \<open>Python's \<open>str\<close> of an integer, the way an id is written in a URL.\<close>

fun digits_of :: "nat \<Rightarrow> pystr" where
  "digits_of n = (if n < 10 then [48 + n] else digits_of (n div 10) @ [48 + n mod 10])"

declare digits_of.simps [simp del]

definition str_of_int :: "int \<Rightarrow> pystr" where
  "str_of_int i = (if i < 0 then 45 # digits_of (nat (- i)) else digits_of (nat i))"

text \<open>
  The state of a table that only this program has written: rows in ascending order of
  id, every id between 1 and the counter, and the counter within 64 bits.
\<close>

definition db_inv :: "db \<Rightarrow> bool" where
  "db_inv d = (sorted_wrt (<) (map fst (rows d))
      \<and> list_all (\<lambda>r. 1 \<le> fst r \<and> fst r \<le> seq d) (rows d)
      \<and> 0 \<le> seq d \<and> seq d \<le> max_rowid)"

text \<open>
  The states the store reaches from a fresh database: any sequence of inserts, updates and
  deletions, an insert that fails leaving the table as it was.
\<close>

datatype store_op =
    OpAdd pystr pystr pystr
  | OpUpdate pystr pystr pystr pystr
  | OpDelete pystr

fun apply_store_op :: "(pystr \<Rightarrow> int option) \<Rightarrow> db \<Rightarrow> store_op \<Rightarrow> db" where
  "apply_store_op other d (OpAdd n p dep) =
     (case add_worker n p dep d of Inl err \<Rightarrow> d | Inr (v, d') \<Rightarrow> d')"
| "apply_store_op other d (OpUpdate t n p dep) = update_worker other t n p dep d"
| "apply_store_op other d (OpDelete t) = delete_worker other t d"

definition run_store_ops :: "(pystr \<Rightarrow> int option) \<Rightarrow> store_op list \<Rightarrow> db" where
  "run_store_ops other ops = foldl (apply_store_op other) (init_db None) ops"

section \<open>The request handler\<close>

subsection \<open>Collaborators\<close>

text \<open>
  \<open>env.get_template(t).render(**kwargs)\<close>: the Jinja2 environment and the files under
  \<open>templates/\<close> are outside \<open>main.py\<close>. A rendering is a function of the template name
  and of the keyword arguments, a parameter of the model. The other parameters stand
  for the parts of four library functions that the model does not compute: \<open>urlparse\<close>
  on a target that is not a plain path, \<open>int\<close> on a text that is neither a plain literal
  nor plainly malformed, the UTF-8 decoding of bytes above 127, and \<open>unquote\<close> on a text
  with a percent sign. \<open>None\<close> is the exception the function raises.
\<close>

datatype tval = TStr pystr | TNone | TWorker worker | TWorkers "worker list"

type_synonym kwargs = "(string \<times> tval) list"

record env =
  other_numeric :: "pystr \<Rightarrow> int option"
  render :: "pystr \<Rightarrow> kwargs \<Rightarrow> pystr"
  urlparse_other :: "pystr \<Rightarrow> pystr option"
  int_other :: "pystr \<Rightarrow> int option"
  decode_other :: "nat list \<Rightarrow> pystr option"
  unquote_other :: "pystr \<Rightarrow> pystr"

text \<open>
  Modelled from the spec: \<open>templates/worker_form.html\<close> is not among the sources. The
  spec says of it that \<open>GET /workers/edit/{id}\<close> gives a form pre-filled with the current
  \<open>name\<close>, \<open>position\<close> and \<open>department\<close> values: the document rendered from a context
  whose \<open>worker\<close> is a Worker contains each of the three values.
\<close>

definition prefills_form :: "(pystr \<Rightarrow> kwargs \<Rightarrow> pystr) \<Rightarrow> bool" where
  "prefills_form rnd = (\<forall>ctx wk. map_of ctx ''worker'' = Some (TWorker wk) \<longrightarrow>
     sublist (name wk) (rnd (ascii ''worker_form.html'') ctx)
     \<and> sublist (position wk) (rnd (ascii ''worker_form.html'') ctx)
     \<and> sublist (department wk) (rnd (ascii ''worker_form.html'') ctx))"

subsection \<open>Requests, responses and the trace of a handler\<close>

text \<open>
  A request as the handler sees it once the library has parsed the request line and the
  headers of an HTTP/1.x request: the method, the request target \<open>self.path\<close>, the value of
  the \<open>Content-Length\<close> header if there is one, and the bytes that \<open>self.rfile\<close> still
  holds, up to the end of what the client sends.
\<close>

record request =
  command :: pystr
  path :: pystr
  content_length :: "pystr option"
  rfile :: "nat list"

text \<open>
  \<open>Html c\<close> is the response of the four lines \<open>send_response(200)\<close>,
  \<open>send_header("Content-type", "text/html; charset=utf-8")\<close>, \<open>end_headers()\<close>,
  \<open>wfile.write(c.encode("utf-8"))\<close>. \<open>Error code message\<close> is the response of
  \<open>send_error(code, message)\<close>. \<open>NotImplemented m\<close> is the library's answer to a method
  \<open>m\<close> for which the handler class has no \<open>do_m\<close>.
\<close>

datatype response = Html pystr | Error nat pystr | NotImplemented pystr

fun status :: "response \<Rightarrow> nat" where
  "status (Html c) = 200"
| "status (Error code message) = code"
| "status (NotImplemented m) = 501"

datatype call =
    GetAll
  | GetById pystr
  | Add pystr pystr pystr
  | Update pystr pystr pystr pystr
  | Delete pystr

fun is_read :: "call \<Rightarrow> bool" where
  "is_read GetAll = True"
| "is_read (GetById t) = True"
| "is_read c = False"

text \<open>
  What a handler acts on: the table, the store functions called so far and the responses
  written so far. A handler returns the exception it raised, if any, and the new world.
\<close>

record world =
  store :: db
  calls :: "call list"
  sent :: "response list"

type_synonym outcome = "error option \<times> world"

definition send_html :: "pystr \<Rightarrow> world \<Rightarrow> outcome" where
  "send_html content w = (None, w\<lparr>sent := sent w @ [Html content]\<rparr>)"

text \<open>
  \<open>send_error\<close> passes the reason phrase to \<open>send_response_only\<close>, which builds the status
  line and encodes it with \<open>encode('latin-1', 'strict')\<close>: a phrase with a code point
  above 255 raises \<open>UnicodeEncodeError\<close> before anything is written.
\<close>

definition latin1 :: "pystr \<Rightarrow> bool" where
  "latin1 s = list_all (\<lambda>c. c < 256) s"

definition send_error :: "nat \<Rightarrow> pystr \<Rightarrow> world \<Rightarrow> outcome" where
  "send_error code message w =
     (if latin1 message then (None, w\<lparr>sent := sent w @ [Error code message]\<rparr>)
      else (Some UnicodeEncodeError, w))"

subsection \<open>Path and form helpers\<close>

text \<open>\<open>s.strip("/")\<close> and \<open>s.split("/")\<close>; the split of an empty text is one empty text.\<close>

definition py_strip :: "nat \<Rightarrow> pystr \<Rightarrow> pystr" where
  "py_strip c s = rev (dropWhile (\<lambda>x. x = c) (rev (dropWhile (\<lambda>x. x = c) s)))"

fun py_split :: "nat \<Rightarrow> pystr \<Rightarrow> pystr list" where
  "py_split sep [] = [[]]"
| "py_split sep (c # cs) =
     (if c = sep then [] # py_split sep cs
      else (case py_split sep cs of [] \<Rightarrow> [[c]] | p # ps \<Rightarrow> (c # p) # ps))"

text \<open>\<open>data_dict.get(key, "")\<close>.\<close>

definition form_get :: "(pystr \<rightharpoonup> pystr) \<Rightarrow> string \<Rightarrow> pystr" where
  "form_get dd key = (case dd (ascii key) of None \<Rightarrow> [] | Some v \<Rightarrow> v)"

subsection \<open>The library calls before the first branch\<close>

text \<open>
  \<open>urllib.parse.urlparse(self.path).path\<close>. A target that starts with one \<open>/\<close> and has no
  \<open>#\<close>, \<open>?\<close>, \<open>;\<close>, tab, line feed or carriage return has no scheme, no host, no
  parameters, no query and no fragment, and nothing is stripped from it: its path is the
  whole target. On any other target \<open>urlparse\<close> cuts the path out or raises
  \<open>ValueError\<close> (a target such as \<open>http://[/workers\<close>).
\<close>

definition simple_target :: "pystr \<Rightarrow> bool" where
  "simple_target u =
     (case u of
        [] \<Rightarrow> False
      | c # cs \<Rightarrow> c = 47 \<and> (case cs of [] \<Rightarrow> True | c2 # cs2 \<Rightarrow> c2 \<noteq> 47)
          \<and> \<not> list_ex (\<lambda>x. x \<in> set [9, 10, 13, 35, 59, 63]) u)"

definition urlparse_path :: "env \<Rightarrow> pystr \<Rightarrow> error + pystr" where
  "urlparse_path e u =
     (if simple_target u then Inr u
      else (case urlparse_other e u of None \<Rightarrow> Inl ValueError | Some p \<Rightarrow> Inr p))"

text \<open>
  \<open>int(s)\<close> on a text: an optional sign and decimal digits, at most 4300 characters, give
  the value; a text with a printable ASCII character other than a digit, a sign or an
  underscore raises \<open>ValueError\<close>; the rest (white space, underscores, other digits, longer
  literals) is the parameter's.
\<close>

definition py_int :: "env \<Rightarrow> pystr \<Rightarrow> error + int" where
  "py_int e s =
     (let rest = (case int_other e s of None \<Rightarrow> Inl ValueError | Some n \<Rightarrow> Inr n) in
      case int_literal s of
        Some n \<Rightarrow> if length s \<le> 4300 then Inr n else rest
      | None \<Rightarrow>
          if list_ex (\<lambda>c. 33 \<le> c \<and> c \<le> 126 \<and> \<not> is_digit c \<and> c \<notin> set [43, 45, 95]) s
          then Inl ValueError else rest)"

text \<open>
  \<open>self.rfile.read(n)\<close> on the buffered reader of the connection: \<open>n\<close> bytes, or what
  there is up to the end of the stream; everything for \<open>-1\<close>; \<open>ValueError\<close> below \<open>-1\<close>.
\<close>

definition rfile_read :: "int \<Rightarrow> nat list \<Rightarrow> error + nat list" where
  "rfile_read n bs =
     (if n < - 1 then Inl ValueError
      else if n = - 1 then Inr bs
      else Inr (take (nat n) bs))"

text \<open>
  \<open>bytes.decode("utf-8")\<close>: bytes below 128 are their own code points; the bytes 192,
  193 and 245 to 255 occur in no UTF-8 text and raise \<open>UnicodeDecodeError\<close>.
\<close>

definition decode_utf8 :: "env \<Rightarrow> nat list \<Rightarrow> error + pystr" where
  "decode_utf8 e bs =
     (if list_all (\<lambda>b. b < 128) bs then Inr bs
      else if list_ex (\<lambda>b. b = 192 \<or> b = 193 \<or> 245 \<le> b) bs then Inl UnicodeDecodeError
      else (case decode_other e bs of None \<Rightarrow> Inl UnicodeDecodeError | Some t \<Rightarrow> Inr t))"

text \<open>
  \<open>dict(urllib.parse.parse_qsl(post_data))\<close> with the defaults: the fields are the pieces
  between \<open>&\<close>; an empty piece is skipped; \<open>partition('=')\<close> cuts a piece at its first
  \<open>=\<close>; a piece with an empty value (or no \<open>=\<close>) is skipped; in name and value \<open>+\<close>
  becomes a space and then \<open>unquote\<close> decodes the percent escapes, returning a text
  without a percent sign as it is. In the dictionary the last value of a name wins.
\<close>

definition unquote :: "env \<Rightarrow> pystr \<Rightarrow> pystr" where
  "unquote e t = (if 37 \<in> set t then unquote_other e t else t)"

definition plus_to_space :: "pystr \<Rightarrow> pystr" where
  "plus_to_space t = map (\<lambda>c. if c = 43 then 32 else c) t"

definition parse_field :: "env \<Rightarrow> pystr \<Rightarrow> (pystr \<times> pystr) list" where
  "parse_field e name_value =
     (if name_value = [] then []
      else (let n = takeWhile (\<lambda>c. c \<noteq> 61) name_value;
                v = drop 1 (dropWhile (\<lambda>c. c \<noteq> 61) name_value) in
            if v = [] then []
            else [(unquote e (plus_to_space n), unquote e (plus_to_space v))]))"

definition parse_qsl :: "env \<Rightarrow> pystr \<Rightarrow> (pystr \<times> pystr) list" where
  "parse_qsl e qs = (if qs = [] then [] else concat (map (parse_field e) (py_split 38 qs)))"

definition py_dict :: "(pystr \<times> pystr) list \<Rightarrow> (pystr \<rightharpoonup> pystr)" where
  "py_dict pairs = map_of (rev pairs)"

text \<open>
  Lines 204 to 206 of \<open>main.py\<close>: \<open>int(self.headers.get("Content-Length", 0))\<close>, the read,
  the decoding and the dictionary. Each of the first three may raise.
\<close>

definition read_form :: "env \<Rightarrow> request \<Rightarrow> error + (pystr \<rightharpoonup> pystr)" where
  "read_form e rq =
     (case (case content_length rq of None \<Rightarrow> Inr 0 | Some h \<Rightarrow> py_int e h) of
        Inl err \<Rightarrow> Inl err
      | Inr n \<Rightarrow>
          (case rfile_read n (rfile rq) of
             Inl err \<Rightarrow> Inl err
           | Inr bs \<Rightarrow>
               (case decode_utf8 e bs of
                  Inl err \<Rightarrow> Inl err
                | Inr post_data \<Rightarrow> Inr (py_dict (parse_qsl e post_data)))))"

subsection \<open>The Cyrillic literals of the source, as code points\<close>

definition title_index :: pystr where
  "title_index = [1044, 1086, 1073, 1088, 1086, 32, 1087, 1086, 1078, 1072, 1083, 1086, 1074,
     1072, 1090, 1100, 32, 1074, 32, 1050, 1072, 1085, 1090, 1077, 1088, 1083, 1086, 1090, 33]"

definition title_list :: pystr where
  "title_list = [1057, 1087, 1080, 1089, 1086, 1082, 32, 1088, 1072, 1073, 1086, 1090, 1085,
     1080, 1082, 1086, 1074]"

definition title_add :: pystr where
  "title_add = [1044, 1086, 1073, 1072, 1074, 1083, 1077, 1085, 1080, 1077, 32, 1088, 1072,
     1073, 1086, 1090, 1085, 1080, 1082, 1072]"

definition submit_add :: pystr where
  "submit_add = [1044, 1086, 1073, 1072, 1074, 1080, 1090, 1100]"

definition title_edit :: pystr where
  "title_edit = [1056, 1077, 1076, 1072, 1082, 1090, 1080, 1088, 1086, 1074, 1072, 1085, 1080,
     1077, 32, 1088, 1072, 1073, 1086, 1090, 1085, 1080, 1082, 1072, 32, 35]"

definition submit_save :: pystr where
  "submit_save = [1057, 1086, 1093, 1088, 1072, 1085, 1080, 1090, 1100]"

definition title_deleted :: pystr where
  "title_deleted = [1056, 1072, 1073, 1086, 1090, 1085, 1080, 1082, 32, 1091, 1076, 1072, 1083,
     1105, 1085]"

definition deleted_prefix :: pystr where
  "deleted_prefix = [1056, 1072, 1073, 1086, 1090, 1085, 1080, 1082, 32, 99, 32, 73, 68, 61]"

definition deleted_suffix :: pystr where
  "deleted_suffix = [32, 1091, 1076, 1072, 1083, 1105, 1085, 46]"

definition title_success :: pystr where
  "title_success = [1059, 1089, 1087, 1077, 1093]"

definition added_prefix :: pystr where
  "added_prefix = [1053, 1086, 1074, 1099, 1081, 32, 1088, 1072, 1073, 1086, 1090, 1085, 1080,
     1082, 32, 39]"

definition added_suffix :: pystr where
  "added_suffix = [39, 32, 1091, 1089, 1087, 1077, 1096, 1085, 1086, 32, 1076, 1086, 1073, 1072,
     1074, 1083, 1077, 1085, 33]"

definition updated_prefix :: pystr where
  "updated_prefix = [1044, 1072, 1085, 1085, 1099, 1077, 32, 1088, 1072, 1073, 1086, 1090, 1085,
     1080, 1082, 1072, 32, 1089, 32, 73, 68, 61]"

definition updated_suffix :: pystr where
  "updated_suffix = [32, 1086, 1073, 1085, 1086, 1074, 1083, 1077, 1085, 1099, 46]"

text \<open>The reason phrase of the last branch of \<open>do_GET\<close> and of \<open>do_POST\<close>.\<close>

definition page_not_found :: pystr where
  "page_not_found = [1057, 1090, 1088, 1072, 1085, 1080, 1094, 1072, 32, 1085, 1077, 32, 1085,
     1072, 1081, 1076, 1077, 1085, 1072]"

subsection \<open>Store calls as a handler makes them\<close>

definition call_get_all :: "world \<Rightarrow> worker list \<times> world" where
  "call_get_all w = (get_all_workers (store w), w\<lparr>calls := calls w @ [GetAll]\<rparr>)"

definition call_get_by_id :: "env \<Rightarrow> pystr \<Rightarrow> world \<Rightarrow> (error + worker option) \<times> world" where
  "call_get_by_id e worker_id w =
     (get_worker_by_id (other_numeric e) (PyStr worker_id) (store w),
      w\<lparr>calls := calls w @ [GetById worker_id]\<rparr>)"

definition call_add :: "pystr \<Rightarrow> pystr \<Rightarrow> pystr \<Rightarrow> world \<Rightarrow> error option \<times> world" where
  "call_add n p dep w =
     (case add_worker n p dep (store w) of
        Inl err \<Rightarrow> (Some err, w\<lparr>calls := calls w @ [Add n p dep]\<rparr>)
      | Inr (v, d) \<Rightarrow> (None, w\<lparr>store := d, calls := calls w @ [Add n p dep]\<rparr>))"

definition call_update :: "env \<Rightarrow> pystr \<Rightarrow> pystr \<Rightarrow> pystr \<Rightarrow> pystr \<Rightarrow> world \<Rightarrow> world" where
  "call_update e worker_id n p dep w =
     w\<lparr>store := update_worker (other_numeric e) worker_id n p dep (store w),
       calls := calls w @ [Update worker_id n p dep]\<rparr>"

definition call_delete :: "env \<Rightarrow> pystr \<Rightarrow> world \<Rightarrow> world" where
  "call_delete e worker_id w =
     w\<lparr>store := delete_worker (other_numeric e) worker_id (store w),
       calls := calls w @ [Delete worker_id]\<rparr>"

subsection \<open>\<open>do_GET\<close>, \<open>do_POST\<close> and the library's dispatch\<close>

definition do_GET :: "env \<Rightarrow> request \<Rightarrow> world \<Rightarrow> outcome" where
  "do_GET e rq w =
     (case urlparse_path e (path rq) of
        Inl err \<Rightarrow> (Some err, w)
      | Inr parsed_path \<Rightarrow>
     (let path_parts = py_split 47 (py_strip 47 parsed_path) in
      if parsed_path = ascii ''/'' then
        send_html (render e (ascii ''index.html'') [(''title'', TStr title_index)]) w
      else if parsed_path = ascii ''/workers'' then
        (case call_get_all w of (workers, w1) \<Rightarrow>
           send_html (render e (ascii ''workers_list.html'')
             [(''workers'', TWorkers workers), (''title'', TStr title_list)]) w1)
      else if length path_parts = 2 \<and> path_parts ! 0 = ascii ''workers''
              \<and> path_parts ! 1 = ascii ''add'' then
        send_html (render e (ascii ''worker_form.html'')
          [(''title'', TStr title_add), (''action'', TStr (ascii ''/workers/add'')),
           (''worker'', TNone), (''submit_text'', TStr submit_add)]) w
      else if length path_parts = 3 \<and> path_parts ! 0 = ascii ''workers''
              \<and> path_parts ! 1 = ascii ''edit'' then
        (let worker_id = path_parts ! 2 in
         case call_get_by_id e worker_id w of
           (Inl err, w1) \<Rightarrow> (Some err, w1)
         | (Inr (Some wk), w1) \<Rightarrow>
             send_html (render e (ascii ''worker_form.html'')
               [(''title'', TStr (title_edit @ worker_id)),
                (''action'', TStr (ascii ''/workers/edit/'' @ worker_id)),
                (''worker'', TWorker wk), (''submit_text'', TStr submit_save)]) w1
         | (Inr None, w1) \<Rightarrow> send_error 404 (ascii ''Worker not found'') w1)
      else if length path_parts = 3 \<and> path_parts ! 0 = ascii ''workers''
              \<and> path_parts ! 1 = ascii ''delete'' then
        (let worker_id = path_parts ! 2 in
         case call_get_by_id e worker_id w of
           (Inl err, w1) \<Rightarrow> (Some err, w1)
         | (Inr (Some wk), w1) \<Rightarrow>
             send_html (render e (ascii ''message.html'')
               [(''title'', TStr title_deleted),
                (''message'', TStr (deleted_prefix @ worker_id @ deleted_suffix))])
               (call_delete e worker_id w1)
         | (Inr None, w1) \<Rightarrow> send_error 404 (ascii ''Worker not found'') w1)
      else send_error 404 page_not_found w))"

definition do_POST :: "env \<Rightarrow> request \<Rightarrow> world \<Rightarrow> outcome" where
  "do_POST e rq w =
     (case urlparse_path e (path rq) of
        Inl err \<Rightarrow> (Some err, w)
      | Inr parsed_path \<Rightarrow>
     (let path_parts = py_split 47 (py_strip 47 parsed_path) in
      case read_form e rq of
        Inl err \<Rightarrow> (Some err, w)
      | Inr data_dict \<Rightarrow>
      if parsed_path = ascii ''/workers/add'' then
        (let n = form_get data_dict ''name'';
             p = form_get data_dict ''position'';
             dep = form_get data_dict ''department'' in
         case call_add n p dep w of
           (Some err, w1) \<Rightarrow> (Some err, w1)
         | (None, w1) \<Rightarrow>
             send_html (render e (ascii ''message.html'')
               [(''title'', TStr title_success),
                (''message'', TStr (added_prefix @ n @ added_suffix))]) w1)
      else if length path_parts = 3 \<and> path_parts ! 0 = ascii ''workers''
              \<and> path_parts ! 1 = ascii ''edit'' then
        (let worker_id = path_parts ! 2 in
         case call_get_by_id e worker_id w of
           (Inl err, w1) \<Rightarrow> (Some err, w1)
         | (Inr (Some wk), w1) \<Rightarrow>
             (let n = form_get data_dict ''name'';
                  p = form_get data_dict ''position'';
                  dep = form_get data_dict ''department'' in
              send_html (render e (ascii ''message.html'')
                [(''title'', TStr title_success),
                 (''message'', TStr (updated_prefix @ worker_id @ updated_suffix))])
                (call_update e worker_id n p dep w1))
         | (Inr None, w1) \<Rightarrow> send_error 404 (ascii ''Worker not found'') w1)
      else send_error 404 page_not_found w))"

text \<open>
  \<open>BaseHTTPRequestHandler.handle_one_request\<close> looks up the method \<open>'do_' + command\<close> and
  answers 501 when the class has none; \<open>MyRequestHandler\<close> defines \<open>do_GET\<close> and \<open>do_POST\<close>
  only. The reason phrase of that answer is built from the request line, which the
  library decodes as Latin-1.
\<close>

definition handle_one_request :: "env \<Rightarrow> request \<Rightarrow> world \<Rightarrow> outcome" where
  "handle_one_request e rq w =
     (if command rq = ascii ''GET'' then do_GET e rq w
      else if command rq = ascii ''POST'' then do_POST e rq w
      else (None, w\<lparr>sent := sent w @ [NotImplemented (command rq)]\<rparr>))"

text \<open>
  The dispatch table of the spec, with its path parsing: the path of the URL is trimmed
  of separators and split into segments; \<open>/\<close> and \<open>/workers\<close> match by equality of the
  whole path, the other rows by the number of segments and their literal values.
\<close>

definition segments :: "pystr \<Rightarrow> pystr list" where
  "segments p = py_split 47 (py_strip 47 p)"

definition table_row :: "pystr \<Rightarrow> pystr \<Rightarrow> bool" where
  "table_row method url_path =
     (let s = segments url_path in
      (method = ascii ''GET'' \<and>
         (url_path = ascii ''/'' \<or> url_path = ascii ''/workers''
          \<or> s = [ascii ''workers'', ascii ''add'']
          \<or> (length s = 3 \<and> take 2 s = [ascii ''workers'', ascii ''edit''])
          \<or> (length s = 3 \<and> take 2 s = [ascii ''workers'', ascii ''delete''])))
      \<or> (method = ascii ''POST'' \<and>
         (s = [ascii ''workers'', ascii ''add'']
          \<or> (length s = 3 \<and> take 2 s = [ascii ''workers'', ascii ''edit'']))))"

text \<open>
  The store calls of one request: none, one, or a read followed by a write.
\<close>

definition at_most_read_then_write :: "call list \<Rightarrow> bool" where
  "at_most_read_then_write cs =
     (case cs of [] \<Rightarrow> True | [c] \<Rightarrow> True | [c1, c2] \<Rightarrow> is_read c1 \<and> \<not> is_read c2
      | c1 # c2 # c3 # cs' \<Rightarrow> False)"

definition trace_ok :: "world \<Rightarrow> error option \<Rightarrow> world \<Rightarrow> bool" where
  "trace_ok w r w' = (\<exists>cs rs. calls w' = calls w @ cs \<and> at_most_read_then_write cs
       \<and> sent w' = sent w @ rs \<and> length rs \<le> 1 \<and> (r = None \<longrightarrow> length rs = 1))"

section \<open>Example states\<close>

definition two_workers :: db where
  "two_workers = \<lparr>rows = [(1, ascii ''Alice'', ascii ''Lead'', ascii ''R&D''),
                           (3, ascii ''Bob'', [], ascii ''Ops'')], seq = 3\<rparr>"

text \<open>
  A rendering that writes out the three fields of the Worker it is given, with library
  parameters that accept nothing beyond what the model computes; a world over the
  two-worker table; and requests.
\<close>

definition plain_env :: env where
  "plain_env = \<lparr>other_numeric = (\<lambda>t. None),
     render = (\<lambda>t kw. case map_of kw ''worker'' of
                 Some (TWorker wk) \<Rightarrow> name wk @ position wk @ department wk
               | _ \<Rightarrow> []),
     urlparse_other = (\<lambda>u. None),
     int_other = (\<lambda>t. None),
     decode_other = (\<lambda>bs. None),
     unquote_other = (\<lambda>t. t)\<rparr>"

definition start_world :: world where
  "start_world = \<lparr>store = two_workers, calls = [], sent = []\<rparr>"

definition get_request :: "string \<Rightarrow> request" where
  "get_request p = \<lparr>command = ascii ''GET'', path = ascii p, content_length = None, rfile = []\<rparr>"

definition put_request :: request where
  "put_request = \<lparr>command = ascii ''PUT'', path = ascii ''/workers/1'',
     content_length = None, rfile = []\<rparr>"

definition post_request :: "string \<Rightarrow> string \<Rightarrow> string \<Rightarrow> request" where
  "post_request p len body = \<lparr>command = ascii ''POST'', path = ascii p,
     content_length = Some (ascii len), rfile = ascii body\<rparr>"



section \<open>Store properties\<close>

subsection \<open>The decimal text of an id is an integer literal with that value\<close>

lemma digits_of_all_digits: "list_all is_digit (digits_of n)"
proof (induction n rule: digits_of.induct)
  case (1 n)
  show ?case
  proof (cases "n < 10")
    case True
    then show ?thesis by (subst digits_of.simps) (simp add: is_digit_def)
  next
    case False
    have "n mod 10 < 10" by simp
    then have "is_digit (48 + n mod 10)" unfolding is_digit_def by linarith
    with False 1 show ?thesis by (subst digits_of.simps) simp
  qed
qed

lemma digits_of_nonempty: "digits_of n \<noteq> []"
  by (subst digits_of.simps) simp

lemma digits_value_snoc: "digits_value (cs @ [c]) = 10 * digits_value cs + (c - 48)"
  by (simp add: digits_value_def)

lemma digits_value_digits_of: "digits_value (digits_of n) = n"
proof (induction n rule: digits_of.induct)
  case (1 n)
  show ?case
  proof (cases "n < 10")
    case True
    then show ?thesis by (subst digits_of.simps) (simp add: digits_value_def)
  next
    case False
    then have "digits_value (digits_of n) = 10 * digits_value (digits_of (n div 10)) + n mod 10"
      by (subst digits_of.simps) (simp add: digits_value_snoc)
    with False 1 show ?thesis by simp
  qed
qed

lemma unsigned_literal_digits_of: "unsigned_literal (digits_of n) = Some n"
  by (simp add: unsigned_literal_def digits_of_nonempty digits_of_all_digits digits_value_digits_of)

lemma digits_of_hd: "\<exists>c cs. digits_of n = c # cs \<and> is_digit c"
proof -
  obtain c cs where eq: "digits_of n = c # cs"
    using digits_of_nonempty[of n] by (cases "digits_of n") auto
  moreover have "is_digit c" using digits_of_all_digits[of n] eq by simp
  ultimately show ?thesis by blast
qed

lemma int_literal_str_of_int: "int_literal (str_of_int i) = Some i"
proof (cases "i < 0")
  case True
  then show ?thesis
    by (simp add: str_of_int_def int_literal_def unsigned_literal_digits_of)
next
  case False
  obtain c cs where eq: "digits_of (nat i) = c # cs" and dg: "is_digit c"
    using digits_of_hd by blast
  from dg have "c \<noteq> 45" "c \<noteq> 43" by (auto simp: is_digit_def)
  moreover have "unsigned_literal (c # cs) = Some (nat i)"
    using unsigned_literal_digits_of[of "nat i"] eq by simp
  ultimately show ?thesis using False eq
    by (simp add: str_of_int_def int_literal_def)
qed

lemma numeric_affinity_str_of_int:
  "- max_rowid - 1 \<le> i \<Longrightarrow> i \<le> max_rowid \<Longrightarrow> numeric_affinity other (str_of_int i) = Some i"
  by (simp add: numeric_affinity_def int_literal_str_of_int)

lemma id_equals_str_of_int:
  "- max_rowid - 1 \<le> i \<Longrightarrow> i \<le> max_rowid \<Longrightarrow> id_equals other (str_of_int i) r = (fst r = i)"
  by (auto simp: id_equals_def numeric_affinity_str_of_int)


subsection \<open>The invariant of the table\<close>

lemma largest_rowid_inv: "db_inv d \<Longrightarrow> largest_rowid d = seq d"
proof -
  have "list_all (\<lambda>r. fst r \<le> s) rs \<Longrightarrow> foldr max (map fst rs) s = s" for rs :: "row list" and s :: int
    by (induction rs) auto
  moreover assume "db_inv d"
  then have "list_all (\<lambda>r. fst r \<le> seq d) (rows d)"
    by (auto simp: db_inv_def list_all_iff)
  ultimately show ?thesis by (simp add: largest_rowid_def)
qed

lemma db_inv_ids: "db_inv d \<Longrightarrow> r \<in> set (rows d) \<Longrightarrow> 1 \<le> fst r \<and> fst r \<le> seq d \<and> fst r \<le> max_rowid"
  by (auto simp: db_inv_def list_all_iff)

lemma db_inv_init: "db_inv (init_db None)"
  by (simp add: db_inv_def init_db_def max_rowid_def)

lemma add_worker_inv:
  assumes "db_inv d" "seq d < max_rowid"
  shows "add_worker n p dep d = Inr (None, \<lparr>rows = rows d @ [(seq d + 1, n, p, dep)], seq = seq d + 1\<rparr>)"
    and "db_inv \<lparr>rows = rows d @ [(seq d + 1, n, p, dep)], seq = seq d + 1\<rparr>"
proof -
  show "add_worker n p dep d = Inr (None, \<lparr>rows = rows d @ [(seq d + 1, n, p, dep)], seq = seq d + 1\<rparr>)"
    using assms by (simp add: add_worker_def largest_rowid_inv Let_def)
  have "\<forall>r\<in>set (rows d). fst r < seq d + 1"
    using db_inv_ids[OF assms(1)] by fastforce
  then show "db_inv \<lparr>rows = rows d @ [(seq d + 1, n, p, dep)], seq = seq d + 1\<rparr>"
    using assms by (auto simp: db_inv_def sorted_wrt_append list_all_iff)
qed

lemma update_keeps_ids:
  "map (fst \<circ> (\<lambda>r. if P r then (fst r, n, p, dep) else r)) rs = map fst rs"
  by (induction rs) auto

lemma update_worker_inv: "db_inv d \<Longrightarrow> db_inv (update_worker other t n p dep d)"
  by (auto simp: db_inv_def update_worker_def list_all_iff update_keeps_ids)

lemma delete_worker_inv: "db_inv d \<Longrightarrow> db_inv (delete_worker other t d)"
  by (auto simp: db_inv_def delete_worker_def list_all_iff sorted_wrt_map sorted_wrt_filter)

lemma find_unique:
  "distinct (map f xs) \<Longrightarrow> x \<in> set xs \<Longrightarrow> (\<And>y. P y = (f y = f x)) \<Longrightarrow> find P xs = Some x"
proof (induction xs)
  case Nil
  then show ?case by simp
next
  case (Cons a xs)
  then show ?case by (auto simp: image_iff)
qed

lemma db_inv_distinct: "db_inv d \<Longrightarrow> distinct (map fst (rows d))"
  by (simp add: db_inv_def strict_sorted_iff)

lemma id_matches_text: "id_matches other (SqlText t) = id_equals other t"
  by (rule ext) simp

lemma get_worker_by_id_text:
  "get_worker_by_id other (PyStr t) d = Inr (fetchone (id_equals other t) d)"
  by (simp add: get_worker_by_id_def bind_param_def id_matches_text)

lemma get_by_str_of_int:
  assumes "db_inv d" "r \<in> set (rows d)"
  shows "get_worker_by_id other (PyStr (str_of_int (fst r))) d = Inr (Some (row_to_worker r))"
proof -
  have rng: "- max_rowid - 1 \<le> fst r" "fst r \<le> max_rowid"
    using db_inv_ids[OF assms] by (auto simp: max_rowid_def)
  have "find (id_equals other (str_of_int (fst r))) (rows d) = Some r"
    by (rule find_unique[where f = fst, OF db_inv_distinct[OF assms(1)] assms(2)])
       (simp add: id_equals_str_of_int[OF rng])
  then show ?thesis by (simp add: get_worker_by_id_text fetchone_def)
qed

lemma fetchone_cases:
  "fetchone P d = None \<Longrightarrow> \<forall>r\<in>set (rows d). \<not> P r"
  "fetchone P d = Some wk \<Longrightarrow> \<exists>r\<in>set (rows d). P r \<and> wk = row_to_worker r"
  by (auto simp: fetchone_def find_None_iff find_Some_iff split: option.splits)

lemma get_by_id_cases:
  "get_worker_by_id other (PyStr t) d = Inr None \<Longrightarrow> \<forall>r\<in>set (rows d). \<not> id_equals other t r"
  "get_worker_by_id other (PyStr t) d = Inr (Some wk) \<Longrightarrow>
     \<exists>r\<in>set (rows d). id_equals other t r \<and> wk = row_to_worker r"
  using fetchone_cases[of "id_equals other t" d] by (auto simp: get_worker_by_id_text)

lemma id_field_row: "id_field (row_to_worker r) = fst r"
  by (cases r) (simp add: row_to_worker_def)

lemma find_filter_neg: "find P (filter (\<lambda>x. \<not> P x) xs) = None"
  by (induction xs) auto

lemma id_equals_fst: "id_equals other t (fst r, a, b, c) = id_equals other t r"
  by (simp add: id_equals_def)

lemma update_other_rows:
  "\<forall>r\<in>set rs. \<not> P r \<Longrightarrow> map (\<lambda>r. if P r then f r else r) rs = rs"
  by (induction rs) auto

lemma delete_other_rows: "\<forall>r\<in>set rs. \<not> P r \<Longrightarrow> filter (\<lambda>r. \<not> P r) rs = rs"
  by (induction rs) auto

lemma db_inv_two_workers: "db_inv two_workers"
  by (simp add: db_inv_def two_workers_def max_rowid_def)

subsection \<open>Every reachable table is in its invariant\<close>

lemma apply_store_op_inv:
  assumes "db_inv d"
  shows "db_inv (apply_store_op other d x) \<and> seq (apply_store_op other d x) \<le> seq d + 1"
proof (cases x)
  case (OpAdd n p dep)
  show ?thesis
  proof (cases "seq d < max_rowid")
    case True
    then show ?thesis using add_worker_inv[OF assms True, of n p dep] OpAdd by simp
  next
    case False
    then have "add_worker n p dep d = Inl SQLITE_FULL"
      using assms by (simp add: add_worker_def largest_rowid_inv)
    then show ?thesis using assms OpAdd by simp
  qed
next
  case (OpUpdate t n p dep)
  then show ?thesis using update_worker_inv[OF assms] by (simp add: update_worker_def)
next
  case (OpDelete t)
  then show ?thesis using delete_worker_inv[OF assms] by (simp add: delete_worker_def)
qed

lemma foldl_store_ops_inv:
  "db_inv d \<Longrightarrow> db_inv (foldl (apply_store_op other) d ops)
     \<and> seq (foldl (apply_store_op other) d ops) \<le> seq d + int (length ops)"
proof (induction ops arbitrary: d)
  case Nil
  then show ?case by simp
next
  case (Cons x ops)
  from apply_store_op_inv[OF Cons.prems, of other x]
  have inv: "db_inv (apply_store_op other d x)" and le: "seq (apply_store_op other d x) \<le> seq d + 1"
    by auto
  from Cons.IH[OF inv] le show ?case by auto
qed

lemma reachable_db_inv:
  "db_inv (run_store_ops other ops) \<and> seq (run_store_ops other ops) \<le> int (length ops)"
  using foldl_store_ops_inv[OF db_inv_init, of other ops]
  by (simp add: run_store_ops_def init_db_def)

section \<open>Handler properties\<close>

subsection \<open>Splitting a path\<close>

lemma py_split_nonempty: "py_split sep xs \<noteq> []"
  by (induction xs) (auto split: list.splits)

lemma py_split_no_sep: "sep \<notin> set xs \<Longrightarrow> py_split sep xs = [xs]"
  by (induction xs) auto

lemma py_split_append:
  "sep \<notin> set xs \<Longrightarrow> py_split sep (xs @ sep # ys) = xs # py_split sep ys"
  by (induction xs) auto

lemma py_strip_inner:
  assumes "s \<noteq> []" "hd s \<noteq> c" "last s \<noteq> c"
  shows "py_strip c s = s"
proof -
  from assms have "dropWhile (\<lambda>x. x = c) s = s"
    by (cases s) auto
  moreover from assms have "dropWhile (\<lambda>x. x = c) (rev s) = rev s"
    by (cases "rev s") (auto simp: last_rev[symmetric] hd_rev)
  ultimately show ?thesis by (simp add: py_strip_def)
qed

lemma py_strip_leading: "py_strip c (c # s) = py_strip c s"
  by (simp add: py_strip_def)

lemma ascii_Cons: "ascii (c # cs) = of_char c # ascii cs"
  by (simp add: ascii_def)

lemma ascii_Nil: "ascii [] = []"
  by (simp add: ascii_def)

lemma edit_path_parts:
  assumes "worker_id \<noteq> []" "47 \<notin> set worker_id"
  shows "py_split 47 (py_strip 47 (ascii ''/workers/edit/'' @ worker_id))
           = [ascii ''workers'', ascii ''edit'', worker_id]"
proof -
  let ?s = "ascii ''workers/edit/'' @ worker_id"
  have "last ?s = last worker_id" using assms(1) by simp
  moreover have "last worker_id \<in> set worker_id" using assms(1) by simp
  ultimately have l: "last ?s \<noteq> 47" using assms(2) by auto
  have "py_strip 47 (ascii ''/workers/edit/'' @ worker_id) = py_strip 47 ?s"
    using py_strip_leading[of 47 ?s] by (simp add: ascii_Cons ascii_Nil)
  also have "\<dots> = ?s"
  proof (rule py_strip_inner)
    show "?s \<noteq> []" by (simp add: ascii_Cons)
    show "hd ?s \<noteq> 47" by (simp add: ascii_Cons)
    show "last ?s \<noteq> 47" by (rule l)
  qed
  finally have st: "py_strip 47 (ascii ''/workers/edit/'' @ worker_id) = ?s" .
  have e: "?s = ascii ''workers'' @ 47 # (ascii ''edit'' @ 47 # worker_id)"
    by (simp add: ascii_Cons ascii_Nil)
  have "py_split 47 (ascii ''workers'' @ 47 # (ascii ''edit'' @ 47 # worker_id))
      = ascii ''workers'' # py_split 47 (ascii ''edit'' @ 47 # worker_id)"
    by (rule py_split_append) (simp add: ascii_Cons ascii_Nil)
  also have "py_split 47 (ascii ''edit'' @ 47 # worker_id) = ascii ''edit'' # py_split 47 worker_id"
    by (rule py_split_append) (simp add: ascii_Cons ascii_Nil)
  also have "py_split 47 worker_id = [worker_id]"
    by (rule py_split_no_sep[OF assms(2)])
  finally show ?thesis using st e by simp
qed

lemma take2_eq: "length s = 3 \<Longrightarrow> (take 2 s = [a, b]) = (s ! 0 = a \<and> s ! 1 = b)"
proof -
  assume "length s = 3"
  then obtain x y z where "s = [x, y, z]"
    by (cases s; cases "tl s"; cases "tl (tl s)") auto
  then show ?thesis by auto
qed

lemma pair_eq: "(s = [a, b]) = (length s = 2 \<and> s ! 0 = a \<and> s ! 1 = b)"
proof (cases s)
  case Nil
  then show ?thesis by simp
next
  case (Cons x xs)
  then show ?thesis by (cases xs) auto
qed

lemma add_path_segments: "segments (ascii ''/workers/add'') = [ascii ''workers'', ascii ''add'']"
  by (simp add: segments_def py_strip_def ascii_Cons ascii_Nil)

subsection \<open>The branches of the handlers\<close>

lemma ascii_neq [simp]:
  "ascii ''POST'' \<noteq> ascii ''GET''"
  by (simp add: ascii_Cons)

lemma latin1_worker_not_found: "latin1 (ascii ''Worker not found'')"
  by (simp add: latin1_def ascii_Cons ascii_Nil)

lemma find_by_id_unique:
  assumes "db_inv d" "r \<in> set (rows d)" "id_equals other t r"
  shows "find (id_equals other t) (rows d) = Some r"
proof (rule find_unique[where f = fst, OF db_inv_distinct[OF assms(1)] assms(2)])
  fix y show "id_equals other t y = (fst y = fst r)"
    using assms(3) by (auto simp: id_equals_def)
qed

lemma do_GET_edit:
  assumes "worker_id \<noteq> []" "47 \<notin> set worker_id"
    and "urlparse_path e (path rq) = Inr (ascii ''/workers/edit/'' @ worker_id)"
  shows "do_GET e rq w =
     (case fetchone (id_equals (other_numeric e) worker_id) (store w) of
        Some wk \<Rightarrow> (None, w\<lparr>calls := calls w @ [GetById worker_id],
            sent := sent w @ [Html (render e (ascii ''worker_form.html'')
               [(''title'', TStr (title_edit @ worker_id)),
                (''action'', TStr (ascii ''/workers/edit/'' @ worker_id)),
                (''worker'', TWorker wk), (''submit_text'', TStr submit_save)])]\<rparr>)
      | None \<Rightarrow> (None, w\<lparr>calls := calls w @ [GetById worker_id],
            sent := sent w @ [Error 404 (ascii ''Worker not found'')]\<rparr>))"
proof -
  let ?p = "ascii ''/workers/edit/'' @ worker_id"
  have parts: "py_split 47 (py_strip 47 ?p) = [ascii ''workers'', ascii ''edit'', worker_id]"
    using edit_path_parts[OF assms(1,2)] by simp
  have ne: "?p \<noteq> ascii ''/''" "?p \<noteq> ascii ''/workers''"
    using assms(1) by (auto simp: ascii_Cons ascii_Nil)
  have ne2: "ascii ''edit'' \<noteq> ascii ''add''" by (simp add: ascii_Cons)
  show ?thesis
    unfolding do_GET_def assms(3) sum.case Let_def parts
    using ne ne2 latin1_worker_not_found
    by (simp add: call_get_by_id_def get_worker_by_id_text send_html_def send_error_def
        split: option.splits)
qed

lemma render_plain:
  "render plain_env t kw =
     (case map_of kw ''worker'' of
        Some (TWorker wk) \<Rightarrow> name wk @ position wk @ department wk
      | _ \<Rightarrow> [])"
  by (simp add: plain_env_def)

lemma prefills_form_plain: "prefills_form (render plain_env)"
  unfolding prefills_form_def
proof (intro allI impI)
  fix ctx :: kwargs and wk :: worker
  assume w: "map_of ctx ''worker'' = Some (TWorker wk)"
  have "sublist (name wk) (name wk @ position wk @ department wk)"
    using sublist_appendI[of "name wk" "[]" "position wk @ department wk"] by simp
  moreover have "sublist (position wk) (name wk @ position wk @ department wk)"
    by (rule sublist_appendI)
  moreover have "sublist (department wk) (name wk @ position wk @ department wk)"
    using sublist_appendI[of "department wk" "name wk @ position wk" "[]"] by simp
  ultimately show "sublist (name wk) (render plain_env (ascii ''worker_form.html'') ctx) \<and>
       sublist (position wk) (render plain_env (ascii ''worker_form.html'') ctx) \<and>
       sublist (department wk) (render plain_env (ascii ''worker_form.html'') ctx)"
    using w by (simp add: render_plain)
qed

text \<open>
  The reason phrase of the last branch is Cyrillic: \<open>send_error\<close> raises on it, and a
  \<open>GET\<close> of an unknown path ends with the exception and no response.
\<close>

lemma page_not_found_raises: "send_error 404 page_not_found w = (Some UnicodeEncodeError, w)"
  by (simp add: send_error_def latin1_def page_not_found_def)

lemma unknown_path_raises:
  "handle_one_request plain_env (get_request ''/nothing'') start_world
     = (Some UnicodeEncodeError, start_world)"
  by code_simp

subsection \<open>The trace of a handler\<close>

lemma send_html_trace:
  "send_html c w = (r, w') \<Longrightarrow> r = None \<and> calls w' = calls w \<and> sent w' = sent w @ [Html c]"
  by (auto simp: send_html_def)

lemma send_error_trace:
  "send_error code m w = (r, w') \<Longrightarrow>
     calls w' = calls w \<and> (\<exists>rs. sent w' = sent w @ rs \<and> length rs \<le> 1 \<and> (r = None \<longrightarrow> length rs = 1))"
  by (auto simp: send_error_def split: if_splits)

lemma trace_ok_html:
  assumes "send_html c w1 = (r, w')" "calls w1 = calls w @ cs" "at_most_read_then_write cs" "sent w1 = sent w"
  shows "trace_ok w r w'"
  using send_html_trace[OF assms(1)] assms(2-4) unfolding trace_ok_def
  by (intro exI[of _ cs] exI[of _ "[Html c]"]) simp

lemma trace_ok_error:
  assumes "send_error code m w1 = (r, w')" "calls w1 = calls w @ cs" "at_most_read_then_write cs" "sent w1 = sent w"
  shows "trace_ok w r w'"
proof -
  from send_error_trace[OF assms(1)] obtain rs where
    "calls w' = calls w1" "sent w' = sent w1 @ rs" "length rs \<le> 1" "r = None \<longrightarrow> length rs = 1"
    by blast
  then show ?thesis using assms(2-4) unfolding trace_ok_def
    by (intro exI[of _ cs] exI[of _ rs]) simp
qed

lemma do_GET_urlparse_raises:
  assumes "urlparse_path e (path rq) = Inl err"
  shows "do_GET e rq w = (Some err, w)"
  unfolding do_GET_def assms sum.case by (rule refl)

lemma do_POST_urlparse_raises:
  assumes "urlparse_path e (path rq) = Inl err"
  shows "do_POST e rq w = (Some err, w)"
  unfolding do_POST_def assms sum.case by (rule refl)

lemma do_POST_read_raises:
  assumes "urlparse_path e (path rq) = Inr p" "read_form e rq = Inl err"
  shows "do_POST e rq w = (Some err, w)"
  unfolding do_POST_def assms sum.case Let_def by (rule refl)

lemma trace_ok_raise: "trace_ok w (Some err) w"
  unfolding trace_ok_def
  by (intro exI[of _ "[]"] exI[of _ "[]"]) (simp add: at_most_read_then_write_def)

lemma trace_ok_raise_after: "trace_ok w (Some err) (w\<lparr>calls := calls w @ [c]\<rparr>)"
  unfolding trace_ok_def
  by (intro exI[of _ "[c]"] exI[of _ "[]"]) (simp add: at_most_read_then_write_def)

lemma do_GET_trace: "do_GET e rq w = (r, w') \<Longrightarrow> trace_ok w r w'"
  unfolding do_GET_def Let_def
  by (auto split: if_splits option.splits prod.splits sum.splits
      simp: call_get_all_def call_get_by_id_def call_delete_def at_most_read_then_write_def
        trace_ok_raise trace_ok_raise_after
      elim!: trace_ok_html[where w = w] trace_ok_error[where w = w])

lemma do_POST_trace: "do_POST e rq w = (r, w') \<Longrightarrow> trace_ok w r w'"
  unfolding do_POST_def Let_def
  by (auto split: if_splits option.splits prod.splits sum.splits
      simp: call_add_def call_get_by_id_def call_update_def at_most_read_then_write_def
        trace_ok_raise trace_ok_raise_after
      elim!: trace_ok_html[where w = w] trace_ok_error[where w = w])

subsection \<open>A text that is never a number\<close>

lemma int_literal_numeric: "int_literal t = Some n \<Longrightarrow> \<not> never_numeric t"
proof -
  have dig: "cs \<noteq> [] \<Longrightarrow> list_all is_digit cs \<Longrightarrow>
      list_ex is_digit cs \<and> list_all numeric_char cs" for cs
    by (cases cs) (auto simp: list_all_iff list_ex_iff numeric_char_def)
  assume a: "int_literal t = Some n"
  then obtain c cs where t: "t = c # cs" by (cases t) (auto simp: int_literal_def)
  show ?thesis
  proof (cases "c = 45 \<or> c = 43")
    case True
    with a t have "cs \<noteq> [] \<and> list_all is_digit cs"
      by (auto simp: int_literal_def unsigned_literal_def split: if_splits)
    with dig[of cs] have "list_ex is_digit cs \<and> list_all numeric_char cs" by simp
    moreover from True have "numeric_char c" by (auto simp: numeric_char_def)
    ultimately show ?thesis using t
      by (auto simp: never_numeric_def list_all_iff list_ex_iff)
  next
    case False
    with a t have "list_all is_digit t"
      by (auto simp: int_literal_def unsigned_literal_def split: if_splits)
    with dig[of t] t show ?thesis
      by (auto simp: never_numeric_def list_all_iff list_ex_iff)
  qed
qed

lemma never_numeric_affinity: "never_numeric t \<Longrightarrow> numeric_affinity other t = None"
  using int_literal_numeric[of t] by (cases "int_literal t") (auto simp: numeric_affinity_def)

lemma abc_never_numeric: "never_numeric (ascii ''abc'')"
  by code_simp

subsection \<open>Reading a form\<close>



lemma bad_content_length: "py_int e (ascii ''abc'') = Inl ValueError"
  by (simp add: py_int_def int_literal_def unsigned_literal_def is_digit_def ascii_Cons
      ascii_Nil Let_def)

section \<open>The claims about the store\<close>

text \<open>
  C1, as the code has it. \<open>add_worker\<close> has no \<open>return\<close>: on a table in its invariant with a
  rowid left it inserts the record under a fresh id, larger than every id in the table
  and than every id ever assigned, and its value is \<open>None\<close>, not that id. The id, written
  in decimal as in a URL, is the one that \<open>get_worker_by_id\<close>, \<open>update_worker\<close> and
  \<open>delete_worker\<close> then act on: the lookup gives the new record, the update rewrites that
  record alone, the deletion removes that record alone.
\<close>

theorem add_assigns_fresh_id:
  assumes "db_inv d" and "seq d < max_rowid"
  shows "\<exists>d' i. add_worker n p dep d = Inr (None, d')
           \<and> rows d' = rows d @ [(i, n, p, dep)]
           \<and> (\<forall>r\<in>set (rows d). fst r < i)
           \<and> seq d < i
           \<and> get_worker_by_id other (PyStr (str_of_int i)) d'
               = Inr (Some \<lparr>id_field = i, name = n, position = p, department = dep\<rparr>)
           \<and> rows (update_worker other (str_of_int i) a b c d') = rows d @ [(i, a, b, c)]
           \<and> rows (delete_worker other (str_of_int i) d') = rows d"
proof -
  let ?i = "seq d + 1"
  let ?d = "\<lparr>rows = rows d @ [(?i, n, p, dep)], seq = ?i\<rparr>"
  have add: "add_worker n p dep d = Inr (None, ?d)" and inv: "db_inv ?d"
    using add_worker_inv[OF assms] by auto
  have below: "\<forall>r\<in>set (rows d). fst r < ?i"
    using db_inv_ids[OF assms(1)] by fastforce
  have rng: "- max_rowid - 1 \<le> ?i" "?i \<le> max_rowid"
    using assms by (auto simp: db_inv_def)
  have eq: "id_equals other (str_of_int ?i) r = (fst r = ?i)" for r
    by (rule id_equals_str_of_int[OF rng])
  have others: "\<forall>r\<in>set (rows d). \<not> id_equals other (str_of_int ?i) r"
    using below by (auto simp: eq)
  have "get_worker_by_id other (PyStr (str_of_int (fst (?i, n, p, dep)))) ?d
      = Inr (Some (row_to_worker (?i, n, p, dep)))"
    by (rule get_by_str_of_int[OF inv]) simp
  then have get: "get_worker_by_id other (PyStr (str_of_int ?i)) ?d
      = Inr (Some \<lparr>id_field = ?i, name = n, position = p, department = dep\<rparr>)"
    by (simp add: row_to_worker_def)
  have upd: "rows (update_worker other (str_of_int ?i) a b c ?d) = rows d @ [(?i, a, b, c)]"
    using update_other_rows[OF others] by (simp add: update_worker_def eq)
  have del: "rows (delete_worker other (str_of_int ?i) ?d) = rows d"
    using delete_other_rows[OF others] by (simp add: delete_worker_def eq)
  show ?thesis
    using add below get upd del by (intro exI[of _ ?d] exI[of _ ?i]) simp
qed

theorem add_assigns_fresh_id_witness:
  "db_inv (init_db None) \<and> seq (init_db None) < max_rowid
   \<and> (\<exists>d' i. add_worker (ascii ''Alice'') (ascii ''Engineer'') (ascii ''R&D'') (init_db None) = Inr (None, d')
           \<and> rows d' = rows (init_db None) @ [(i, ascii ''Alice'', ascii ''Engineer'', ascii ''R&D'')]
           \<and> (\<forall>r\<in>set (rows (init_db None)). fst r < i)
           \<and> seq (init_db None) < i
           \<and> get_worker_by_id (\<lambda>t. None) (PyStr (str_of_int i)) d'
               = Inr (Some \<lparr>id_field = i, name = ascii ''Alice'', position = ascii ''Engineer'', department = ascii ''R&D''\<rparr>)
           \<and> rows (update_worker (\<lambda>t. None) (str_of_int i) (ascii ''Alice'') (ascii ''Lead'') (ascii ''R&D'') d')
               = rows (init_db None) @ [(i, ascii ''Alice'', ascii ''Lead'', ascii ''R&D'')]
           \<and> rows (delete_worker (\<lambda>t. None) (str_of_int i) d') = rows (init_db None))"
proof -
  have h1: "db_inv (init_db None)" by (rule db_inv_init)
  have h2: "seq (init_db None) < max_rowid" by (simp add: init_db_def max_rowid_def)
  show ?thesis
    using h1 h2 add_assigns_fresh_id [OF h1 h2, of "ascii ''Alice''" "ascii ''Engineer''" "ascii ''R&D''"
        "\<lambda>t. None" "ascii ''Alice''" "ascii ''Lead''" "ascii ''R&D''"]
    by blast
qed

text \<open>
  C1 as stated fails: on the empty table the call assigns the id 1 and returns \<open>None\<close>,
  so the caller is not given the id.
\<close>

theorem add_returns_none:
  "add_worker (ascii ''Alice'') (ascii ''Engineer'') (ascii ''R&D'') (init_db None)
     = Inr (None, \<lparr>rows = [(1, ascii ''Alice'', ascii ''Engineer'', ascii ''R&D'')], seq = 1\<rparr>)
   \<and> add_worker (ascii ''Alice'') (ascii ''Engineer'') (ascii ''R&D'') (init_db None)
     \<noteq> Inr (Some 1, \<lparr>rows = [(1, ascii ''Alice'', ascii ''Engineer'', ascii ''R&D'')], seq = 1\<rparr>)"
  by (simp add: add_worker_def largest_rowid_def init_db_def max_rowid_def)

text \<open>
  C2 (round trip). For all texts \<open>n\<close>, \<open>p\<close>, \<open>dep\<close> and every table in its invariant with a
  rowid left, \<open>add_worker\<close> succeeds, and \<open>get_worker_by_id\<close> on the id assigned to the new
  record, an id no row had before, returns a Worker with exactly these three values.
\<close>

theorem add_then_get:
  assumes "db_inv d" and "seq d < max_rowid"
  shows "\<exists>d' i. add_worker n p dep d = Inr (None, d')
           \<and> rows d' = rows d @ [(i, n, p, dep)]
           \<and> i \<notin> fst ` set (rows d)
           \<and> get_worker_by_id other (PyStr (str_of_int i)) d'
               = Inr (Some \<lparr>id_field = i, name = n, position = p, department = dep\<rparr>)"
proof -
  let ?i = "seq d + 1"
  let ?d = "\<lparr>rows = rows d @ [(?i, n, p, dep)], seq = ?i\<rparr>"
  have add: "add_worker n p dep d = Inr (None, ?d)" and inv: "db_inv ?d"
    using add_worker_inv[OF assms] by auto
  have fresh: "?i \<notin> fst ` set (rows d)"
    using db_inv_ids[OF assms(1)] by fastforce
  have "get_worker_by_id other (PyStr (str_of_int (fst (?i, n, p, dep)))) ?d
      = Inr (Some (row_to_worker (?i, n, p, dep)))"
    by (rule get_by_str_of_int[OF inv]) simp
  then have "get_worker_by_id other (PyStr (str_of_int ?i)) ?d
      = Inr (Some \<lparr>id_field = ?i, name = n, position = p, department = dep\<rparr>)"
    by (simp add: row_to_worker_def)
  with add fresh show ?thesis by auto
qed

theorem add_then_get_witness:
  "db_inv (init_db None) \<and> seq (init_db None) < max_rowid
   \<and> (\<exists>d' i. add_worker (ascii ''Alice'') (ascii ''Engineer'') (ascii ''R&D'') (init_db None) = Inr (None, d')
           \<and> rows d' = rows (init_db None) @ [(i, ascii ''Alice'', ascii ''Engineer'', ascii ''R&D'')]
           \<and> i \<notin> fst ` set (rows (init_db None))
           \<and> get_worker_by_id (\<lambda>t. None) (PyStr (str_of_int i)) d'
               = Inr (Some \<lparr>id_field = i, name = ascii ''Alice'', position = ascii ''Engineer'', department = ascii ''R&D''\<rparr>))"
proof -
  have h1: "db_inv (init_db None)" by (rule db_inv_init)
  have h2: "seq (init_db None) < max_rowid" by (simp add: init_db_def max_rowid_def)
  show ?thesis
    using h1 h2 add_then_get [OF h1 h2, of "ascii ''Alice''" "ascii ''Engineer''" "ascii ''R&D''" "\<lambda>t. None"]
    by blast
qed

text \<open>
  C3 (list completeness). On a table in its invariant \<open>get_all_workers\<close> returns one
  Worker per stored row, in strictly ascending order of id, so no id twice; a Worker is
  in the list exactly when \<open>get_worker_by_id\<close> on its id returns it; and the list is empty
  when the table is.
\<close>

theorem list_all_complete:
  assumes "db_inv d"
  shows "length (get_all_workers d) = length (rows d)
     \<and> sorted_wrt (<) (map id_field (get_all_workers d))
     \<and> distinct (map id_field (get_all_workers d))
     \<and> (\<forall>wk. wk \<in> set (get_all_workers d)
            \<longleftrightarrow> get_worker_by_id other (PyStr (str_of_int (id_field wk))) d = Inr (Some wk))
     \<and> (rows d = [] \<longrightarrow> get_all_workers d = [])"
proof -
  have ids: "map id_field (get_all_workers d) = map fst (rows d)"
    by (simp add: get_all_workers_def o_def id_field_row)
  have srt: "sorted_wrt (<) (map fst (rows d))"
    using assms by (simp add: db_inv_def)
  have mem: "wk \<in> set (get_all_workers d)
      \<longleftrightarrow> get_worker_by_id other (PyStr (str_of_int (id_field wk))) d = Inr (Some wk)" for wk
  proof
    assume "wk \<in> set (get_all_workers d)"
    then obtain r where r: "r \<in> set (rows d)" "wk = row_to_worker r"
      by (auto simp: get_all_workers_def)
    then show "get_worker_by_id other (PyStr (str_of_int (id_field wk))) d = Inr (Some wk)"
      using get_by_str_of_int[OF assms r(1), of other] by (simp add: id_field_row)
  next
    assume "get_worker_by_id other (PyStr (str_of_int (id_field wk))) d = Inr (Some wk)"
    then show "wk \<in> set (get_all_workers d)"
      using get_by_id_cases(2) by (fastforce simp: get_all_workers_def)
  qed
  have "length (get_all_workers d) = length (rows d)"
    and "rows d = [] \<longrightarrow> get_all_workers d = []"
    by (simp_all add: get_all_workers_def)
  moreover have "sorted_wrt (<) (map id_field (get_all_workers d))"
    and "distinct (map id_field (get_all_workers d))"
    unfolding ids using srt db_inv_distinct[OF assms] by simp_all
  ultimately show ?thesis using mem by blast
qed

theorem list_all_complete_witness:
  "db_inv two_workers
   \<and> length (get_all_workers two_workers) = length (rows two_workers)
   \<and> sorted_wrt (<) (map id_field (get_all_workers two_workers))
   \<and> distinct (map id_field (get_all_workers two_workers))
   \<and> (\<forall>wk. wk \<in> set (get_all_workers two_workers)
          \<longleftrightarrow> get_worker_by_id (\<lambda>t. None) (PyStr (str_of_int (id_field wk))) two_workers = Inr (Some wk))
   \<and> get_all_workers two_workers =
       [\<lparr>id_field = 1, name = ascii ''Alice'', position = ascii ''Lead'', department = ascii ''R&D''\<rparr>,
        \<lparr>id_field = 3, name = ascii ''Bob'', position = [], department = ascii ''Ops''\<rparr>]"
proof -
  have "get_all_workers two_workers =
       [\<lparr>id_field = 1, name = ascii ''Alice'', position = ascii ''Lead'', department = ascii ''R&D''\<rparr>,
        \<lparr>id_field = 3, name = ascii ''Bob'', position = [], department = ascii ''Ops''\<rparr>]"
    by (simp add: get_all_workers_def two_workers_def row_to_worker_def)
  then show ?thesis
    using db_inv_two_workers list_all_complete [OF db_inv_two_workers, of "\<lambda>t. None"] by blast
qed

text \<open>
  C4 (delete finality). For every id text and every table, after \<open>delete_worker\<close> the
  lookup of that id raises nothing and returns \<open>None\<close>, and a second \<open>delete_worker\<close>
  leaves the table as the first one left it.
\<close>

theorem delete_finality:
  "get_worker_by_id other (PyStr t) (delete_worker other t d) = Inr None
   \<and> delete_worker other t (delete_worker other t d) = delete_worker other t d"
  by (simp add: get_worker_by_id_text fetchone_def delete_worker_def find_filter_neg)

theorem delete_finality_witness:
  "get_worker_by_id (\<lambda>t. None) (PyStr (ascii ''1''))
     \<lparr>rows = [(1, ascii ''Alice'', ascii ''Lead'', ascii ''R&D'')], seq = 1\<rparr>
     = Inr (Some \<lparr>id_field = 1, name = ascii ''Alice'', position = ascii ''Lead'', department = ascii ''R&D''\<rparr>)
   \<and> delete_worker (\<lambda>t. None) (ascii ''1'')
     \<lparr>rows = [(1, ascii ''Alice'', ascii ''Lead'', ascii ''R&D'')], seq = 1\<rparr> = \<lparr>rows = [], seq = 1\<rparr>
   \<and> get_worker_by_id (\<lambda>t. None) (PyStr (ascii ''1'')) \<lparr>rows = [], seq = 1\<rparr> = Inr None
   \<and> delete_worker (\<lambda>t. None) (ascii ''1'') \<lparr>rows = [], seq = 1\<rparr> = \<lparr>rows = [], seq = 1\<rparr>"
  using delete_finality [of "\<lambda>t. None" "ascii ''1''"
      "\<lparr>rows = [(1, ascii ''Alice'', ascii ''Lead'', ascii ''R&D'')], seq = 1\<rparr>"]
  by (simp add: get_worker_by_id_text fetchone_def delete_worker_def id_equals_def
      numeric_affinity_def int_literal_def unsigned_literal_def digits_value_def is_digit_def
      max_rowid_def ascii_def row_to_worker_def)

text \<open>
  C5 (update idempotence). For every id text, present or not, and all texts \<open>a\<close>, \<open>b\<close>,
  \<open>c\<close>, a second \<open>update_worker\<close> with the same arguments leaves the table as the first
  one left it.
\<close>

theorem update_idempotent:
  "update_worker other t a b c (update_worker other t a b c d) = update_worker other t a b c d"
  by (simp add: update_worker_def o_def id_equals_fst)

theorem update_idempotent_witness:
  "update_worker (\<lambda>t. None) (ascii ''3'') (ascii ''Bob'') (ascii ''Lead'') (ascii ''Ops'')
     (update_worker (\<lambda>t. None) (ascii ''3'') (ascii ''Bob'') (ascii ''Lead'') (ascii ''Ops'') two_workers)
   = update_worker (\<lambda>t. None) (ascii ''3'') (ascii ''Bob'') (ascii ''Lead'') (ascii ''Ops'') two_workers
   \<and> update_worker (\<lambda>t. None) (ascii ''3'') (ascii ''Bob'') (ascii ''Lead'') (ascii ''Ops'') two_workers
   = \<lparr>rows = [(1, ascii ''Alice'', ascii ''Lead'', ascii ''R&D''),
              (3, ascii ''Bob'', ascii ''Lead'', ascii ''Ops'')], seq = 3\<rparr>"
  using update_idempotent [of "\<lambda>t. None" "ascii ''3''" "ascii ''Bob''" "ascii ''Lead''" "ascii ''Ops''" two_workers]
  by (simp add: update_worker_def two_workers_def id_equals_def numeric_affinity_def
      int_literal_def unsigned_literal_def digits_value_def is_digit_def max_rowid_def ascii_def)

text \<open>
  C6, as the code has it. For every text, for every integer within 64 bits, for \<open>None\<close>
  and for bytes, \<open>get_worker_by_id\<close> raises nothing and returns a stored Worker or \<open>None\<close>:
  a Worker only if the text converts to its id, or the integer is its id, and \<open>None\<close> only
  when no row has that id. A text that is never a number (no digit, or a character that
  no numeric literal has) gives \<open>None\<close>, whatever the rest of the conversion does. The
  values that \<open>sqlite3\<close> cannot bind raise: an integer outside 64 bits, a \<open>str\<close> with a lone
  surrogate, an object of another type.
\<close>

theorem get_by_id_found_or_absent:
  "(case get_worker_by_id other (PyStr t) d of
      Inl err \<Rightarrow> False
    | Inr None \<Rightarrow> \<forall>r\<in>set (rows d). numeric_affinity other t \<noteq> Some (fst r)
    | Inr (Some wk) \<Rightarrow>
        wk \<in> set (get_all_workers d) \<and> numeric_affinity other t = Some (id_field wk))
   \<and> (never_numeric t \<longrightarrow> get_worker_by_id other (PyStr t) d = Inr None)
   \<and> (- max_rowid - 1 \<le> n \<and> n \<le> max_rowid \<longrightarrow>
        (case get_worker_by_id other (PyInt n) d of
           Inl err \<Rightarrow> False
         | Inr None \<Rightarrow> \<forall>r\<in>set (rows d). fst r \<noteq> n
         | Inr (Some wk) \<Rightarrow> wk \<in> set (get_all_workers d) \<and> id_field wk = n))
   \<and> get_worker_by_id other PyNone d = Inr None
   \<and> get_worker_by_id other (PyBytes b) d = Inr None
   \<and> (n < - max_rowid - 1 \<or> max_rowid < n \<longrightarrow>
        get_worker_by_id other (PyInt n) d = Inl OverflowError)
   \<and> get_worker_by_id other PyIllFormedStr d = Inl UnicodeEncodeError
   \<and> get_worker_by_id other PyObject d = Inl ProgrammingError"
proof -
  have a: "case get_worker_by_id other (PyStr t) d of
      Inl err \<Rightarrow> False
    | Inr None \<Rightarrow> \<forall>r\<in>set (rows d). numeric_affinity other t \<noteq> Some (fst r)
    | Inr (Some wk) \<Rightarrow>
        wk \<in> set (get_all_workers d) \<and> numeric_affinity other t = Some (id_field wk)"
  proof (cases "fetchone (id_equals other t) d")
    case None
    then show ?thesis using fetchone_cases(1)[OF None]
      by (simp add: get_worker_by_id_text id_equals_def)
  next
    case (Some wk)
    then show ?thesis using fetchone_cases(2)[OF Some]
      by (auto simp: get_worker_by_id_text id_equals_def get_all_workers_def id_field_row)
  qed
  have b: "never_numeric t \<longrightarrow> get_worker_by_id other (PyStr t) d = Inr None"
  proof
    assume "never_numeric t"
    then have "find (id_equals other t) (rows d) = None"
      by (simp add: find_None_iff id_equals_def never_numeric_affinity)
    then show "get_worker_by_id other (PyStr t) d = Inr None"
      by (simp add: get_worker_by_id_text fetchone_def)
  qed
  have c: "- max_rowid - 1 \<le> n \<and> n \<le> max_rowid \<longrightarrow>
        (case get_worker_by_id other (PyInt n) d of
           Inl err \<Rightarrow> False
         | Inr None \<Rightarrow> \<forall>r\<in>set (rows d). fst r \<noteq> n
         | Inr (Some wk) \<Rightarrow> wk \<in> set (get_all_workers d) \<and> id_field wk = n)"
  proof
    assume rng: "- max_rowid - 1 \<le> n \<and> n \<le> max_rowid"
    then have g: "get_worker_by_id other (PyInt n) d = Inr (fetchone (id_matches other (SqlInt n)) d)"
      by (simp add: get_worker_by_id_def bind_param_def)
    show "case get_worker_by_id other (PyInt n) d of
           Inl err \<Rightarrow> False
         | Inr None \<Rightarrow> \<forall>r\<in>set (rows d). fst r \<noteq> n
         | Inr (Some wk) \<Rightarrow> wk \<in> set (get_all_workers d) \<and> id_field wk = n"
    proof (cases "fetchone (id_matches other (SqlInt n)) d")
      case None
      then show ?thesis using fetchone_cases(1)[OF None] by (simp add: g)
    next
      case (Some wk)
      then show ?thesis using fetchone_cases(2)[OF Some]
        by (auto simp: g get_all_workers_def id_field_row)
    qed
  qed
  have "find (id_matches other SqlNull) (rows d) = None"
    and "find (id_matches other (SqlBlob b)) (rows d) = None"
    by (simp_all add: find_None_iff)
  then have d: "get_worker_by_id other PyNone d = Inr None"
    "get_worker_by_id other (PyBytes b) d = Inr None"
    by (simp_all add: get_worker_by_id_def bind_param_def fetchone_def)
  have e: "n < - max_rowid - 1 \<or> max_rowid < n \<longrightarrow>
        get_worker_by_id other (PyInt n) d = Inl OverflowError"
    by (auto simp: get_worker_by_id_def bind_param_def)
  have f: "get_worker_by_id other PyIllFormedStr d = Inl UnicodeEncodeError"
    "get_worker_by_id other PyObject d = Inl ProgrammingError"
    by (simp_all add: get_worker_by_id_def bind_param_def)
  from a b c d e f show ?thesis by blast
qed

theorem get_by_id_found_or_absent_witness:
  "never_numeric (ascii ''abc'')
   \<and> get_worker_by_id (\<lambda>t. Some 1) (PyStr (ascii ''abc'')) two_workers = Inr None
   \<and> - max_rowid - 1 \<le> 3 \<and> 3 \<le> max_rowid
   \<and> get_worker_by_id (\<lambda>t. Some 1) (PyInt 3) two_workers
       = Inr (Some \<lparr>id_field = 3, name = ascii ''Bob'', position = [], department = ascii ''Ops''\<rparr>)
   \<and> get_worker_by_id (\<lambda>t. Some 1) (PyStr (ascii ''3'')) two_workers
       = Inr (Some \<lparr>id_field = 3, name = ascii ''Bob'', position = [], department = ascii ''Ops''\<rparr>)"
proof -
  have h: "never_numeric (ascii ''abc'')" by (rule abc_never_numeric)
  have r: "- max_rowid - 1 \<le> 3 \<and> 3 \<le> max_rowid" by (simp add: max_rowid_def)
  have i3: "get_worker_by_id (\<lambda>t. Some 1) (PyInt 3) two_workers
       = Inr (Some \<lparr>id_field = 3, name = ascii ''Bob'', position = [], department = ascii ''Ops''\<rparr>)"
    by code_simp
  have s3: "get_worker_by_id (\<lambda>t. Some 1) (PyStr (ascii ''3'')) two_workers
       = Inr (Some \<lparr>id_field = 3, name = ascii ''Bob'', position = [], department = ascii ''Ops''\<rparr>)"
    by code_simp
  show ?thesis
    using h r i3 s3 get_by_id_found_or_absent [where other = "\<lambda>t. Some 1" and t = "ascii ''abc''"
        and d = two_workers and n = 3]
    by blast
qed

text \<open>
  C6 as stated fails: the integer \<open>2 ** 63\<close> is not coercible to the 64-bit id, and the
  call raises \<open>OverflowError\<close> instead of returning not-found; so does a list, with
  \<open>ProgrammingError\<close>.
\<close>

theorem get_by_id_overflow:
  "get_worker_by_id (\<lambda>t. None) (PyInt 9223372036854775808) two_workers = Inl OverflowError
   \<and> get_worker_by_id (\<lambda>t. None) PyObject two_workers = Inl ProgrammingError"
  by (simp add: get_worker_by_id_def bind_param_def max_rowid_def)

section \<open>The claims about the request handler\<close>

text \<open>
  C7, as the code has it. Whatever the request, the handler the library dispatches to
  makes no store call, one store call, or two: a read followed by a write. It writes at
  most one response, and exactly one whenever it ends without raising.
\<close>

theorem handler_trace_bound:
  assumes "handle_one_request e rq w = (r, w')"
  shows "\<exists>cs rs. calls w' = calls w @ cs \<and> at_most_read_then_write cs
       \<and> sent w' = sent w @ rs \<and> length rs \<le> 1 \<and> (r = None \<longrightarrow> length rs = 1)"
proof -
  have "trace_ok w r w'"
  proof (cases "command rq = ascii ''GET''")
    case True
    then show ?thesis using assms do_GET_trace by (simp add: handle_one_request_def)
  next
    case False
    show ?thesis
    proof (cases "command rq = ascii ''POST''")
      case True
      then show ?thesis using assms do_POST_trace by (simp add: handle_one_request_def)
    next
      case no_post: False
      with False assms have "r = None" "w' = w\<lparr>sent := sent w @ [NotImplemented (command rq)]\<rparr>"
        by (auto simp: handle_one_request_def)
      then show ?thesis unfolding trace_ok_def
        by (intro exI[of _ "[]"] exI[of _ "[NotImplemented (command rq)]"])
           (simp add: at_most_read_then_write_def)
    qed
  qed
  then show ?thesis by (simp add: trace_ok_def)
qed

theorem handler_trace_bound_witness:
  "handle_one_request plain_env (get_request ''/workers/delete/1'') start_world =
     (None, \<lparr>store = \<lparr>rows = [(3, ascii ''Bob'', [], ascii ''Ops'')], seq = 3\<rparr>,
             calls = [GetById (ascii ''1''), Delete (ascii ''1'')],
             sent = [Html []]\<rparr>)
   \<and> (\<exists>cs rs. calls \<lparr>store = \<lparr>rows = [(3, ascii ''Bob'', [], ascii ''Ops'')], seq = 3\<rparr>,
             calls = [GetById (ascii ''1''), Delete (ascii ''1'')],
             sent = [Html []]\<rparr> = calls start_world @ cs
         \<and> at_most_read_then_write cs
         \<and> sent \<lparr>store = \<lparr>rows = [(3, ascii ''Bob'', [], ascii ''Ops'')], seq = 3\<rparr>,
             calls = [GetById (ascii ''1''), Delete (ascii ''1'')],
             sent = [Html []]\<rparr> = sent start_world @ rs
         \<and> length rs \<le> 1 \<and> (None = (None :: error option) \<longrightarrow> length rs = 1))"
proof -
  have h: "handle_one_request plain_env (get_request ''/workers/delete/1'') start_world =
     (None, \<lparr>store = \<lparr>rows = [(3, ascii ''Bob'', [], ascii ''Ops'')], seq = 3\<rparr>,
             calls = [GetById (ascii ''1''), Delete (ascii ''1'')],
             sent = [Html []]\<rparr>)"
    by code_simp
  from h handler_trace_bound [OF h] show ?thesis by (rule conjI)
qed

text \<open>
  C7 as stated fails: \<open>GET /workers/delete/1\<close> on a table that holds worker 1 calls
  \<open>get_worker_by_id\<close> and then \<open>delete_worker\<close>, two store operations.
\<close>

theorem delete_route_two_store_calls:
  "calls (snd (handle_one_request plain_env (get_request ''/workers/delete/1'') start_world))
     = [GetById (ascii ''1''), Delete (ascii ''1'')]
   \<and> length (calls (snd (handle_one_request plain_env (get_request ''/workers/delete/1'') start_world))) = 2"
  by code_simp

text \<open>
  C8, as the code has it. A request whose method is neither \<open>GET\<close> nor \<open>POST\<close> is
  answered by the library with status 501, whatever its path, and no handler runs. A
  \<open>GET\<close> request whose target \<open>urlparse\<close> accepts, and a \<open>POST\<close> request whose target
  \<open>urlparse\<close> accepts and whose body is read and decoded, when its path matches no row of
  the dispatch table, calls no store function and ends in the last branch of its handler,
  the call \<open>send_error(404, ...)\<close>. When \<open>urlparse\<close> or the reading of the body raises, the
  exception leaves the handler: no store call, no response.
\<close>

theorem unmatched_requests:
  "(command rq \<noteq> ascii ''GET'' \<and> command rq \<noteq> ascii ''POST'' \<longrightarrow>
      handle_one_request e rq w = (None, w\<lparr>sent := sent w @ [NotImplemented (command rq)]\<rparr>)
      \<and> status (NotImplemented (command rq)) = 501)
   \<and> (command rq = ascii ''GET'' \<and> urlparse_path e (path rq) = Inr p
        \<and> \<not> table_row (command rq) p \<longrightarrow>
      handle_one_request e rq w = send_error 404 page_not_found w)
   \<and> (command rq = ascii ''POST'' \<and> urlparse_path e (path rq) = Inr p
        \<and> read_form e rq = Inr dd \<and> \<not> table_row (command rq) p \<longrightarrow>
      handle_one_request e rq w = send_error 404 page_not_found w)
   \<and> ((command rq = ascii ''GET'' \<or> command rq = ascii ''POST'')
        \<and> urlparse_path e (path rq) = Inl err \<longrightarrow>
      handle_one_request e rq w = (Some err, w))
   \<and> (command rq = ascii ''POST'' \<and> urlparse_path e (path rq) = Inr p
        \<and> read_form e rq = Inl err \<longrightarrow>
      handle_one_request e rq w = (Some err, w))"
proof -
  let ?s = "py_split 47 (py_strip 47 p)"
  have m: "command rq \<noteq> ascii ''GET'' \<and> command rq \<noteq> ascii ''POST'' \<longrightarrow>
      handle_one_request e rq w = (None, w\<lparr>sent := sent w @ [NotImplemented (command rq)]\<rparr>)
      \<and> status (NotImplemented (command rq)) = 501"
    by (simp add: handle_one_request_def)
  have g: "command rq = ascii ''GET'' \<and> urlparse_path e (path rq) = Inr p
        \<and> \<not> table_row (command rq) p \<longrightarrow>
      handle_one_request e rq w = send_error 404 page_not_found w"
  proof
    assume a: "command rq = ascii ''GET'' \<and> urlparse_path e (path rq) = Inr p
        \<and> \<not> table_row (command rq) p"
    then have c: "(p = ascii ''/'') = False" "(p = ascii ''/workers'') = False"
      "(length ?s = 2 \<and> ?s ! 0 = ascii ''workers'' \<and> ?s ! 1 = ascii ''add'') = False"
      "(length ?s = 3 \<and> ?s ! 0 = ascii ''workers'' \<and> ?s ! 1 = ascii ''edit'') = False"
      "(length ?s = 3 \<and> ?s ! 0 = ascii ''workers'' \<and> ?s ! 1 = ascii ''delete'') = False"
      by (auto simp: table_row_def segments_def Let_def take2_eq pair_eq)
    from a have u: "urlparse_path e (path rq) = Inr p" by simp
    have "do_GET e rq w = send_error 404 page_not_found w"
      unfolding do_GET_def u sum.case Let_def by (simp only: c if_False)
    with a show "handle_one_request e rq w = send_error 404 page_not_found w"
      by (simp add: handle_one_request_def)
  qed
  have po: "command rq = ascii ''POST'' \<and> urlparse_path e (path rq) = Inr p
        \<and> read_form e rq = Inr dd \<and> \<not> table_row (command rq) p \<longrightarrow>
      handle_one_request e rq w = send_error 404 page_not_found w"
  proof
    assume a: "command rq = ascii ''POST'' \<and> urlparse_path e (path rq) = Inr p
        \<and> read_form e rq = Inr dd \<and> \<not> table_row (command rq) p"
    then have n: "segments p \<noteq> [ascii ''workers'', ascii ''add'']"
      and c: "(length ?s = 3 \<and> ?s ! 0 = ascii ''workers'' \<and> ?s ! 1 = ascii ''edit'') = False"
      by (auto simp: table_row_def segments_def Let_def take2_eq)
    from n have c': "(p = ascii ''/workers/add'') = False"
      using add_path_segments by auto
    from a have u: "urlparse_path e (path rq) = Inr p" and f: "read_form e rq = Inr dd"
      by simp_all
    have "do_POST e rq w = send_error 404 page_not_found w"
      unfolding do_POST_def u f sum.case Let_def by (simp only: c c' if_False)
    with a show "handle_one_request e rq w = send_error 404 page_not_found w"
      by (simp add: handle_one_request_def)
  qed
  have ur: "(command rq = ascii ''GET'' \<or> command rq = ascii ''POST'')
        \<and> urlparse_path e (path rq) = Inl err \<longrightarrow>
      handle_one_request e rq w = (Some err, w)"
  proof
    assume a: "(command rq = ascii ''GET'' \<or> command rq = ascii ''POST'')
        \<and> urlparse_path e (path rq) = Inl err"
    then have u: "urlparse_path e (path rq) = Inl err" by simp
    have "do_GET e rq w = (Some err, w)" "do_POST e rq w = (Some err, w)"
      by (rule do_GET_urlparse_raises[OF u], rule do_POST_urlparse_raises[OF u])
    with a show "handle_one_request e rq w = (Some err, w)"
      by (auto simp: handle_one_request_def)
  qed
  have fr: "command rq = ascii ''POST'' \<and> urlparse_path e (path rq) = Inr p
        \<and> read_form e rq = Inl err \<longrightarrow>
      handle_one_request e rq w = (Some err, w)"
  proof
    assume a: "command rq = ascii ''POST'' \<and> urlparse_path e (path rq) = Inr p
        \<and> read_form e rq = Inl err"
    then have "do_POST e rq w = (Some err, w)"
      using do_POST_read_raises[of e rq p err w] by simp
    with a show "handle_one_request e rq w = (Some err, w)"
      by (simp add: handle_one_request_def)
  qed
  from m g po ur fr show ?thesis by blast
qed

theorem unmatched_requests_witness:
  "command put_request \<noteq> ascii ''GET'' \<and> command put_request \<noteq> ascii ''POST''
   \<and> handle_one_request plain_env put_request start_world
       = (None, start_world\<lparr>sent := sent start_world @ [NotImplemented (command put_request)]\<rparr>)
   \<and> status (NotImplemented (command put_request)) = 501
   \<and> command (get_request ''/nothing'') = ascii ''GET''
   \<and> urlparse_path plain_env (path (get_request ''/nothing'')) = Inr (ascii ''/nothing'')
   \<and> \<not> table_row (command (get_request ''/nothing'')) (ascii ''/nothing'')
   \<and> handle_one_request plain_env (get_request ''/nothing'') start_world
       = send_error 404 page_not_found start_world
   \<and> command (post_request ''/nothing'' ''abc'' ''name=Alice'') = ascii ''POST''
   \<and> urlparse_path plain_env (path (post_request ''/nothing'' ''abc'' ''name=Alice''))
       = Inr (ascii ''/nothing'')
   \<and> read_form plain_env (post_request ''/nothing'' ''abc'' ''name=Alice'') = Inl ValueError
   \<and> handle_one_request plain_env (post_request ''/nothing'' ''abc'' ''name=Alice'') start_world
       = (Some ValueError, start_world)"
proof -
  have h1: "command put_request \<noteq> ascii ''GET'' \<and> command put_request \<noteq> ascii ''POST''"
    by code_simp
  have h2: "command (get_request ''/nothing'') = ascii ''GET''"
    by (simp add: get_request_def)
  have h3: "urlparse_path plain_env (path (get_request ''/nothing'')) = Inr (ascii ''/nothing'')"
    by code_simp
  have h4: "\<not> table_row (command (get_request ''/nothing'')) (ascii ''/nothing'')"
    by code_simp
  have h5: "command (post_request ''/nothing'' ''abc'' ''name=Alice'') = ascii ''POST''"
    by (simp add: post_request_def)
  have h6: "urlparse_path plain_env (path (post_request ''/nothing'' ''abc'' ''name=Alice''))
       = Inr (ascii ''/nothing'')"
    by code_simp
  have h7: "read_form plain_env (post_request ''/nothing'' ''abc'' ''name=Alice'') = Inl ValueError"
    by (simp add: read_form_def post_request_def bad_content_length)
  note put = unmatched_requests [where rq = put_request and e = plain_env and w = start_world
      and p = "[]" and dd = Map.empty and err = ValueError]
  note get = unmatched_requests [where rq = "get_request ''/nothing''" and e = plain_env
      and w = start_world and p = "ascii ''/nothing''" and dd = Map.empty and err = ValueError]
  note post = unmatched_requests [where rq = "post_request ''/nothing'' ''abc'' ''name=Alice''"
      and e = plain_env and w = start_world and p = "ascii ''/nothing''" and dd = Map.empty
      and err = ValueError]
  have p1: "handle_one_request plain_env put_request start_world
       = (None, start_world\<lparr>sent := sent start_world @ [NotImplemented (command put_request)]\<rparr>)
     \<and> status (NotImplemented (command put_request)) = 501"
    by (rule mp[OF conjunct1[OF put] h1])
  have p2: "handle_one_request plain_env (get_request ''/nothing'') start_world
       = send_error 404 page_not_found start_world"
    by (rule mp[OF conjunct1[OF conjunct2[OF get]] conjI[OF h2 conjI[OF h3 h4]]])
  have p3: "handle_one_request plain_env (post_request ''/nothing'' ''abc'' ''name=Alice'') start_world
       = (Some ValueError, start_world)"
    by (rule mp[OF conjunct2[OF conjunct2[OF conjunct2[OF conjunct2[OF post]]]]
          conjI[OF h5 conjI[OF h6 h7]]])
  from h1 p1 h2 h3 h4 p2 h5 h6 h7 p3 show ?thesis by blast
qed

text \<open>
  C8 as stated fails: \<open>PUT /workers/1\<close> matches no row of the table and its response has
  status 501, not 404.
\<close>

theorem put_request_gets_501:
  "map status (sent (snd (handle_one_request plain_env put_request start_world))) = [501]
   \<and> \<not> table_row (ascii ''PUT'') (ascii ''/workers/1'')"
  by code_simp

text \<open>
  C9 (routing exactness). For every id that is a path segment (not empty, no separator
  in it), over a table in its invariant: \<open>GET\<close> of a target whose path is
  \<open>/workers/edit/{id}\<close> calls \<open>get_worker_by_id\<close> once; when no row has that id the
  response is \<open>send_error(404, "Worker not found")\<close>, status 404; when a row has it the
  response has status 200 and its body is the rendering of \<open>worker_form.html\<close> for that
  row, which for a template that pre-fills the form contains the row's current name,
  position and department.
\<close>

theorem edit_form_route:
  assumes "worker_id \<noteq> []" and "47 \<notin> set worker_id"
    and "command rq = ascii ''GET''"
    and "urlparse_path e (path rq) = Inr (ascii ''/workers/edit/'' @ worker_id)"
    and "db_inv (store w)" and "prefills_form (render e)"
  shows "((\<forall>r\<in>set (rows (store w)). \<not> id_equals (other_numeric e) worker_id r) \<longrightarrow>
            handle_one_request e rq w = (None, w\<lparr>calls := calls w @ [GetById worker_id],
               sent := sent w @ [Error 404 (ascii ''Worker not found'')]\<rparr>)
            \<and> status (Error 404 (ascii ''Worker not found'')) = 404)
       \<and> (\<forall>i n p dep. (i, n, p, dep) \<in> set (rows (store w))
              \<and> id_equals (other_numeric e) worker_id (i, n, p, dep) \<longrightarrow>
            (\<exists>body. handle_one_request e rq w = (None, w\<lparr>calls := calls w @ [GetById worker_id],
                 sent := sent w @ [Html body]\<rparr>)
               \<and> status (Html body) = 200
               \<and> sublist n body \<and> sublist p body \<and> sublist dep body))"
proof (intro conjI allI impI)
  assume "\<forall>r\<in>set (rows (store w)). \<not> id_equals (other_numeric e) worker_id r"
  then have "find (id_equals (other_numeric e) worker_id) (rows (store w)) = None"
    by (simp add: find_None_iff)
  then have "fetchone (id_equals (other_numeric e) worker_id) (store w) = None"
    by (simp add: fetchone_def)
  then show "handle_one_request e rq w = (None, w\<lparr>calls := calls w @ [GetById worker_id],
               sent := sent w @ [Error 404 (ascii ''Worker not found'')]\<rparr>)"
    using assms(3) do_GET_edit[OF assms(1,2,4), of w] by (simp add: handle_one_request_def)
next
  show "status (Error 404 (ascii ''Worker not found'')) = 404" by simp
next
  fix i n p dep
  assume r: "(i, n, p, dep) \<in> set (rows (store w)) \<and> id_equals (other_numeric e) worker_id (i, n, p, dep)"
  let ?wk = "\<lparr>id_field = i, name = n, position = p, department = dep\<rparr>"
  let ?ctx = "[(''title'', TStr (title_edit @ worker_id)),
                (''action'', TStr (ascii ''/workers/edit/'' @ worker_id)),
                (''worker'', TWorker ?wk), (''submit_text'', TStr submit_save)]"
  let ?body = "render e (ascii ''worker_form.html'') ?ctx"
  have "find (id_equals (other_numeric e) worker_id) (rows (store w)) = Some (i, n, p, dep)"
    using find_by_id_unique[OF assms(5)] r by blast
  then have "fetchone (id_equals (other_numeric e) worker_id) (store w) = Some ?wk"
    by (simp add: fetchone_def row_to_worker_def)
  then have h: "handle_one_request e rq w = (None, w\<lparr>calls := calls w @ [GetById worker_id],
                 sent := sent w @ [Html ?body]\<rparr>)"
    using assms(3) do_GET_edit[OF assms(1,2,4), of w] by (simp add: handle_one_request_def)
  have "map_of ?ctx ''worker'' = Some (TWorker ?wk)" by simp
  then have "sublist (name ?wk) ?body \<and> sublist (position ?wk) ?body \<and> sublist (department ?wk) ?body"
    using assms(6) unfolding prefills_form_def by blast
  then have "sublist n ?body \<and> sublist p ?body \<and> sublist dep ?body" by simp
  with h show "\<exists>body. handle_one_request e rq w = (None, w\<lparr>calls := calls w @ [GetById worker_id],
                 sent := sent w @ [Html body]\<rparr>)
               \<and> status (Html body) = 200
               \<and> sublist n body \<and> sublist p body \<and> sublist dep body"
    by (intro exI[of _ ?body]) simp
qed

theorem edit_form_route_witness:
  "ascii ''3'' \<noteq> [] \<and> 47 \<notin> set (ascii ''3'')
   \<and> command (get_request ''/workers/edit/3'') = ascii ''GET''
   \<and> urlparse_path plain_env (path (get_request ''/workers/edit/3''))
       = Inr (ascii ''/workers/edit/'' @ ascii ''3'')
   \<and> db_inv (store start_world)
   \<and> (3, ascii ''Bob'', [], ascii ''Ops'') \<in> set (rows (store start_world))
   \<and> id_equals (other_numeric plain_env) (ascii ''3'') (3, ascii ''Bob'', [], ascii ''Ops'')
   \<and> (\<exists>body. handle_one_request plain_env (get_request ''/workers/edit/3'') start_world
          = (None, start_world\<lparr>calls := calls start_world @ [GetById (ascii ''3'')],
               sent := sent start_world @ [Html body]\<rparr>)
        \<and> status (Html body) = 200
        \<and> sublist (ascii ''Bob'') body \<and> sublist [] body \<and> sublist (ascii ''Ops'') body)"
proof -
  have h1: "ascii ''3'' \<noteq> []" and h2: "47 \<notin> set (ascii ''3'')"
    by (simp_all add: ascii_Cons ascii_Nil)
  have h3: "command (get_request ''/workers/edit/3'') = ascii ''GET''"
    by (simp add: get_request_def)
  have h4: "urlparse_path plain_env (path (get_request ''/workers/edit/3''))
       = Inr (ascii ''/workers/edit/'' @ ascii ''3'')"
    by code_simp
  have h5: "db_inv (store start_world)"
    by (simp add: start_world_def db_inv_two_workers)
  have h6: "(3, ascii ''Bob'', [], ascii ''Ops'') \<in> set (rows (store start_world))"
    by (simp add: start_world_def two_workers_def)
  have h7: "id_equals (other_numeric plain_env) (ascii ''3'') (3, ascii ''Bob'', [], ascii ''Ops'')"
    by code_simp
  show ?thesis
    using h1 h2 h3 h4 h5 h6 h7
      edit_form_route [OF h1 h2 h3 h4 h5 prefills_form_plain]
    by blast
qed




end
